theory Spec2Isabelle
  imports Complex_Main "HOL-Library.Sublist"
begin

section \<open>Python values used by the trading system\<close>

text \<open>
  Python floats are modelled as \<^typ>\<open>real\<close>, Python ints as \<^typ>\<open>int\<close>. The
  properties verified below are decided by comparisons (\<open>max\<close>, \<open>min\<close>, \<open>if\<close>) and by
  sums, differences and quotients of values that are exact in binary floating point at the
  inputs discussed; where the source can meet a NaN or a division by zero, the branch is
  written out in the model.

  A \<open>dict\<close> with string keys is an association list in insertion order:
  \<open>d.get(k, dflt)\<close> is \<open>dict_get d k dflt\<close>, \<open>d.keys()\<close> is \<open>dict_keys d\<close>,
  \<open>d[k] = v\<close> is \<open>dict_set k v d\<close> (the position of an existing key is kept, a new
  key goes to the end).
\<close>

type_synonym pydict = "(string \<times> real) list"

definition dict_get :: "pydict \<Rightarrow> string \<Rightarrow> real \<Rightarrow> real" where
  "dict_get d k dflt = (case map_of d k of None \<Rightarrow> dflt | Some v \<Rightarrow> v)"

definition dict_keys :: "pydict \<Rightarrow> string list" where
  "dict_keys d = map fst d"

fun dict_set :: "string \<Rightarrow> real \<Rightarrow> pydict \<Rightarrow> pydict" where
  "dict_set k v [] = [(k, v)]"
| "dict_set k v (p # ps) = (if fst p = k then (k, v) # ps else p # dict_set k v ps)"

text \<open>\<open>round(x)\<close> of Python 3: to the nearest integer, ties to the even one.\<close>

definition py_round :: "real \<Rightarrow> int" where
  "py_round x =
     (let f = \<lfloor>x\<rfloor>; d = x - of_int f
      in if d < 1 / 2 then f
         else if 1 / 2 < d then f + 1
         else if even f then f else f + 1)"

text \<open>\<open>needle in haystack\<close> on strings, and \<open>str.lower()\<close> on ASCII letters.\<close>

fun py_in :: "string \<Rightarrow> string \<Rightarrow> bool" where
  "py_in p [] = (p = [])"
| "py_in p (c # cs) = (prefix p (c # cs) \<or> py_in p cs)"

definition lower_char :: "char \<Rightarrow> char" where
  "lower_char c =
     (case map_of (zip ''ABCDEFGHIJKLMNOPQRSTUVWXYZ'' ''abcdefghijklmnopqrstuvwxyz'') c of
        Some l \<Rightarrow> l
      | None \<Rightarrow> c)"

definition py_lower :: "string \<Rightarrow> string" where
  "py_lower s = map lower_char s"

section \<open>Option-chain snapshots\<close>

text \<open>
  One row of the option-chain table (the columns of the market-data interface). A snapshot
  is the list of its rows; \<open>df[df['Strike'] == k]\<close> followed by \<open>.empty\<close> and
  \<open>.iloc[0]\<close> is \<open>strike_row k df\<close>: the first row with that strike, if any.
\<close>

record row =
  Strike :: real
  Call_OI :: real
  Call_Change_OI :: real
  Call_Volume :: real
  Call_LTP :: real
  Put_OI :: real
  Put_Change_OI :: real
  Put_Volume :: real
  Put_LTP :: real

type_synonym snapshot = "row list"

definition strike_row :: "real \<Rightarrow> snapshot \<Rightarrow> row option" where
  "strike_row k df = (case filter (\<lambda>r. Strike r = k) df of [] \<Rightarrow> None | r # _ \<Rightarrow> Some r)"

section \<open>PaperTrade: the position lifecycle\<close>

text \<open>
  The fields of class \<open>PaperTrade\<close> that \<open>enter\<close>, \<open>check_exit\<close> and \<open>reset\<close> read or
  write. \<open>position\<close> is \<open>None\<close>, \<open>'SHORT_PUT'\<close> or \<open>'SHORT_CALL'\<close>;
  \<open>entry_time\<close> is \<open>None\<close> or a clock reading in seconds. The attribute
  \<open>ml_trailing_stop_pct\<close> does not exist until the first \<open>enter\<close> and is not touched
  by \<open>__init__\<close>, hence by \<open>reset\<close>: it is an option that \<open>reset\<close> keeps.
  \<open>datetime.now()\<close> is the extra argument \<open>now\<close>.
\<close>

datatype side = SHORT_PUT | SHORT_CALL

record paper_trade =
  position :: "side option"
  entry_price :: real
  entry_time :: "real option"
  entry_strike :: real
  direction :: int
  active :: bool
  pnl :: real
  is_short :: bool
  max_profit :: real
  position_size :: int
  regime :: string
  stop_loss :: real
  profit_target :: real
  ml_trailing_stop_pct :: "real option"

definition paper_trade_init :: "real option \<Rightarrow> paper_trade" where
  "paper_trade_init tsl =
     \<lparr> position = None, entry_price = 0, entry_time = None, entry_strike = 0,
       direction = 0, active = False, pnl = 0, is_short = False, max_profit = 0,
       position_size = 0, regime = ''unknown'', stop_loss = 0, profit_target = 0,
       ml_trailing_stop_pct = tsl \<rparr>"

definition reset :: "paper_trade \<Rightarrow> paper_trade" where
  "reset s = paper_trade_init (ml_trailing_stop_pct s)"

text \<open>\<open>calculate_exit_levels\<close>: stop 10 percent above entry, target by regime.\<close>

definition calculate_exit_levels :: "real \<Rightarrow> string \<Rightarrow> paper_trade \<Rightarrow> paper_trade" where
  "calculate_exit_levels ep rg s =
     s\<lparr> stop_loss := ep * 1.10,
        profit_target :=
          (if py_in ''trending'' rg then ep * 0.5
           else if py_in ''sideways'' rg then ep * 0.7
           else ep * 0.6) \<rparr>"

text \<open>
  \<open>enter(direction, ltp, strike, position_size, regime, ml_predictions)\<close>. The two
  validation returns come first; after them the position fields are assigned with no test
  of \<open>self.active\<close>. \<open>ml_predictions\<close> is \<open>None\<close> or a dict; an empty dict is falsy
  and takes the fallback branch.
\<close>

definition enter ::
  "real \<Rightarrow> int \<Rightarrow> real \<Rightarrow> real \<Rightarrow> int \<Rightarrow> string \<Rightarrow> pydict option \<Rightarrow> paper_trade
     \<Rightarrow> bool \<times> paper_trade" where
  "enter now dir ltp strike psize rg ml_predictions s =
     (if dir \<noteq> -1 \<and> dir \<noteq> 1 then (False, s)
      else if ltp \<le> 0 then (False, s)
      else
        let s1 = s\<lparr> position := Some (if dir = 1 then SHORT_PUT else SHORT_CALL),
                    entry_price := ltp, entry_strike := strike, entry_time := Some now,
                    direction := dir, active := True, regime := rg, is_short := True \<rparr>
        in (case ml_predictions of
              Some (p # ps) \<Rightarrow>
                let mp = p # ps;
                    position_size_pred = dict_get mp ''position_size'' 0.5;
                    ml_position_size_lots = max 1 (py_round (position_size_pred * 10));
                    stop_loss_pct = max 0.05 (min 0.20 (dict_get mp ''stop_loss_pct'' 0.10));
                    tsl = max 0.3 (min 0.8 (dict_get mp ''trailing_stop_pct'' 0.5));
                    ml_confidence = max 0.0 (min 1.0 (dict_get mp ''confidence'' 0.5))
                in (True,
                    s1\<lparr> position_size := max psize ml_position_size_lots,
                        stop_loss := ltp * (1 + stop_loss_pct),
                        ml_trailing_stop_pct := Some tsl,
                        profit_target :=
                          (if ml_confidence > 0.8 then ltp * 0.4
                           else if ml_confidence > 0.7 then ltp * 0.6
                           else ltp * 0.7) \<rparr>)
            | _ \<Rightarrow>
                (True,
                 calculate_exit_levels ltp rg
                   (s1\<lparr> position_size := max 1 psize, ml_trailing_stop_pct := Some 0.5 \<rparr>))))"

text \<open>
  The entry step of the run loop that fires when no signal was sent (the orchestrator's
  ``threshold'' entry): the only place, with its two siblings in the live and offline
  loops, where \<open>enter\<close> is called, each behind \<open>not self.paper_trade.active\<close>.
  \<open>Config.SIGNAL_STRENGTH_THRESHOLD\<close> defaults to 2.
\<close>

definition SIGNAL_STRENGTH_THRESHOLD :: int where
  "SIGNAL_STRENGTH_THRESHOLD = 2"

definition threshold_entry ::
  "real \<Rightarrow> int \<Rightarrow> int \<Rightarrow> row \<Rightarrow> real \<Rightarrow> int \<Rightarrow> string \<Rightarrow> pydict option \<Rightarrow> paper_trade
     \<Rightarrow> paper_trade" where
  "threshold_entry now signal strength atm_row atm_strike psize rg current_ml_prediction s =
     (if \<not> active s \<and> signal \<noteq> 0 \<and> strength \<ge> SIGNAL_STRENGTH_THRESHOLD then
        (let current_ltp = (if signal = 1 then Put_LTP atm_row else Call_LTP atm_row)
         in if current_ltp > 0
            then snd (enter now signal current_ltp atm_strike psize rg
                        (case current_ml_prediction of
                           Some (p # ps) \<Rightarrow> Some (p # ps) | _ \<Rightarrow> None) s)
            else s)
      else s)"

text \<open>
  The record handed back by \<open>check_exit\<close> (\<open>trade_data\<close>), and the chain of exit tests
  of \<open>check_exit\<close>, in the order of the source: an \<open>if\<close> with four \<open>elif\<close>s, the last
  one holding the trailing-stop test.
\<close>

record trade_data =
  td_exit_reason :: string
  td_exit_price :: real
  td_max_profit :: real
  td_entry_price :: real
  td_strike :: real
  td_position_size :: int
  td_direction :: int
  td_regime :: string
  td_pnl :: real
  td_outcome :: int

definition regime_trailing_pct :: "string \<Rightarrow> real" where
  "regime_trailing_pct rg =
     (if py_in ''trending'' (py_lower rg) then 0.4
      else if py_in ''sideways'' (py_lower rg) then 0.6
      else 0.5)"

definition exit_reason_of ::
  "real \<Rightarrow> int \<Rightarrow> string \<Rightarrow> paper_trade \<Rightarrow> real \<Rightarrow> real \<Rightarrow> string option" where
  "exit_reason_of now signal rg s current_ltp profit =
     (if current_ltp \<ge> stop_loss s then Some ''Stop Loss''
      else if signal = 0 \<or> signal \<noteq> direction s then Some ''Signal Change''
      else if current_ltp \<le> profit_target s then Some ''Profit Target''
      else if (case entry_time s of None \<Rightarrow> False | Some t0 \<Rightarrow> now - t0 > 7200)
        then Some ''Time Exit''
      else if max_profit s > 8.0 \<and> profit > 2.0 then
        (let trailing_pct =
               (case ml_trailing_stop_pct s of
                  Some p \<Rightarrow> if p \<noteq> 0 then p else regime_trailing_pct rg
                | None \<Rightarrow> regime_trailing_pct rg)
         in if profit < max_profit s * trailing_pct then Some ''Trailing Stop'' else None)
      else None)"

definition leg_price :: "int \<Rightarrow> row \<Rightarrow> real" where
  "leg_price dir r = (if dir = 1 then Put_LTP r else Call_LTP r)"

definition check_exit ::
  "real \<Rightarrow> snapshot \<Rightarrow> int \<Rightarrow> string \<Rightarrow> paper_trade
     \<Rightarrow> (int \<times> real \<times> trade_data) option \<times> paper_trade" where
  "check_exit now current_data signal rg s =
     (if \<not> active s then (None, s)
      else case strike_row (entry_strike s) current_data of
        None \<Rightarrow> (None, s)
      | Some r \<Rightarrow>
          let current_ltp = leg_price (direction s) r;
              profit = entry_price s - current_ltp;
              s1 = (if profit > max_profit s then s\<lparr>max_profit := profit\<rparr>
                    else if max_profit s > 8.0 \<and> profit > 2.0 then s
                    else s\<lparr>max_profit := max (max_profit s) profit\<rparr>)
          in (case exit_reason_of now signal rg s1 current_ltp profit of
                None \<Rightarrow> (None, s1)
              | Some reason \<Rightarrow>
                  let s2 = s1\<lparr>pnl := profit\<rparr>;
                      outcome = (if pnl s2 > 0 then 1 else 0);
                      td = \<lparr> td_exit_reason = reason, td_exit_price = current_ltp,
                             td_max_profit = max_profit s2, td_entry_price = entry_price s2,
                             td_strike = entry_strike s2, td_position_size = position_size s2,
                             td_direction = direction s2, td_regime = regime s2,
                             td_pnl = pnl s2, td_outcome = outcome \<rparr>
                  in (Some (outcome, pnl s2, td), reset s2)))"

section \<open>AdvancedMLDecisionEngine: schema, samples and the sequence model\<close>

text \<open>
  \<open>xs[-n:]\<close> for a non-negative \<open>n\<close>: the last \<open>n\<close> elements, and the whole list when
  \<open>n\<close> is 0 (the slice is then \<open>xs[0:]\<close>). \<open>deque(maxlen=m).append\<close> drops from the
  left; with \<open>m = 0\<close> nothing is kept.
\<close>

definition py_last :: "nat \<Rightarrow> 'a list \<Rightarrow> 'a list" where
  "py_last n xs = (if n = 0 then xs else drop (length xs - n) xs)"

definition deque_append :: "nat \<Rightarrow> 'a list \<Rightarrow> 'a \<Rightarrow> 'a list" where
  "deque_append m xs x = drop (length xs + 1 - m) (xs @ [x])"

text \<open>
  The sequence model and its optimizer are opaque tensors. What the model keeps of them is
  the input width fixed at construction, how many training calls the weights have received
  since construction, and whether a checkpoint was loaded into them. A constructor call
  yields random initial weights: no training, no checkpoint.
\<close>

record lstm =
  lstm_input_size :: int
  lstm_train_calls :: nat
  lstm_from_checkpoint :: bool

record adam =
  adam_train_calls :: nat
  adam_from_checkpoint :: bool

definition LSTMSignalPredictor :: "int \<Rightarrow> lstm" where
  "LSTMSignalPredictor n =
     \<lparr> lstm_input_size = n, lstm_train_calls = 0, lstm_from_checkpoint = False \<rparr>"

definition Adam :: adam where
  "Adam = \<lparr> adam_train_calls = 0, adam_from_checkpoint = False \<rparr>"

text \<open>
  A training sample. The engine never sets \<open>current_trade_data\<close>, so the
  \<open>'trade_data'\<close> entry of every sample is the empty dict and is left out.
\<close>

record sample =
  s_features :: pydict
  s_timestamp :: real
  s_labels :: "pydict option"

record ml_engine =
  feature_names :: "string list"
  trained_feature_names :: "string list"
  is_trained :: bool
  input_size :: int
  sequence_length :: nat
  feature_buffer :: "pydict list"
  feature_buffer_maxlen :: nat
  training_data :: "sample list"
  max_training_samples :: nat
  min_training_samples :: nat
  training_counter :: nat
  deep_model :: lstm
  optimizer :: adam
  sequence_buffer :: "(real list list \<times> real) list"
  sequence_buffer_seq_len :: nat
  fitted :: "string set"
  scaler_n_features :: "nat option"

definition initial_feature_names :: "string list" where
  "initial_feature_names =
     [''underlying_price'', ''atm_strike'', ''price_strike_diff'', ''price_strike_ratio'',
      ''atm_call_oi'', ''atm_put_oi'', ''atm_call_volume'', ''atm_put_volume'',
      ''atm_call_ltp'', ''atm_put_ltp'',
      ''pcr_oi'', ''pcr_volume'', ''call_put_ltp_ratio'',
      ''total_call_oi'', ''total_put_oi'', ''total_call_volume'', ''total_put_volume'',
      ''hour'', ''minute'', ''time_of_day'', ''is_opening'', ''is_closing'', ''is_mid_session'',
      ''call_oi_change'', ''put_oi_change'', ''call_volume_change'', ''put_volume_change'',
      ''call_ltp_change'', ''put_ltp_change'', ''call_oi_change_pct'', ''put_oi_change_pct'',
      ''call_volume_change_pct'', ''put_volume_change_pct'', ''call_ltp_change_pct'',
      ''put_ltp_change_pct'']"

text \<open>
  \<open>__init__\<close> with the default arguments (\<open>input_size=35\<close>, \<open>sequence_length=10\<close>) and
  the default configuration (50 and 2000 samples), when no saved model file exists, so that
  \<open>load_models\<close> returns at once.
\<close>

definition ml_engine_init :: ml_engine where
  "ml_engine_init =
     \<lparr> feature_names = initial_feature_names, trained_feature_names = [],
       is_trained = False, input_size = 35, sequence_length = 10,
       feature_buffer = [], feature_buffer_maxlen = 10, training_data = [],
       max_training_samples = 2000, min_training_samples = 50, training_counter = 0,
       deep_model = LSTMSignalPredictor 35, optimizer = Adam,
       sequence_buffer = [], sequence_buffer_seq_len = 10,
       fitted = {}, scaler_n_features = None \<rparr>"

text \<open>
  The loop of \<open>update_training_data\<close> that appends every key of the sample not yet in
  \<open>feature_names\<close>, in the order of the keys, and counts the additions.
\<close>

fun extend_names :: "string list \<Rightarrow> string list \<Rightarrow> nat \<Rightarrow> string list \<times> nat" where
  "extend_names names [] added = (names, added)"
| "extend_names names (k # ks) added =
     (if k \<notin> set names then extend_names (names @ [k]) ks (added + 1)
      else extend_names names ks added)"

text \<open>
  The two inner loops of the sequence-buffer block: every missing name is stored into the
  buffered dict with 0.0, then the dict is read in \<open>feature_names\<close> order.
\<close>

fun fill_missing :: "string list \<Rightarrow> pydict \<Rightarrow> pydict" where
  "fill_missing [] feat = feat"
| "fill_missing (n # ns) feat =
     fill_missing ns (if n \<in> set (dict_keys feat) then feat else dict_set n 0.0 feat)"

definition feature_vector_of :: "string list \<Rightarrow> pydict \<Rightarrow> real list" where
  "feature_vector_of names feat = map (\<lambda>n. dict_get feat n 0) names"

definition sequence_buffer_add ::
  "nat \<Rightarrow> real list list \<Rightarrow> real \<Rightarrow> (real list list \<times> real) list
     \<Rightarrow> (real list list \<times> real) list" where
  "sequence_buffer_add seq_len sq label buf =
     (if length sq \<ge> seq_len then deque_append 1000 buf (py_last seq_len sq, label) else buf)"

definition update_training_data ::
  "real \<Rightarrow> pydict \<Rightarrow> pydict option \<Rightarrow> ml_engine \<Rightarrow> ml_engine" where
  "update_training_data now features labels e =
     (let smp = \<lparr> s_features = features, s_timestamp = now, s_labels = labels \<rparr>;
          td = training_data e @ [smp];
          fb = deque_append (feature_buffer_maxlen e) (feature_buffer e) features;
          td' = (if length td > max_training_samples e
                 then py_last (max_training_samples e) td else td);
          e1 = e\<lparr> training_data := td', feature_buffer := fb \<rparr>;
          e2 = (if feature_names e1 = [] then
                  e1\<lparr> feature_names := dict_keys features,
                      input_size := int (length (dict_keys features)) \<rparr>
                else
                  (let (names, added) = extend_names (feature_names e1) (dict_keys features) 0;
                       e1a = e1\<lparr> feature_names := names \<rparr>;
                       e1b = (if added \<noteq> 0
                              then e1a\<lparr> input_size := int (length names) \<rparr> else e1a)
                   in e1b\<lparr> deep_model := LSTMSignalPredictor (input_size e1b),
                          optimizer := Adam \<rparr>));
          e3 = e2\<lparr> training_counter := training_counter e2 + 1 \<rparr>
      in if length (feature_buffer e3) \<ge> sequence_length e3 then
           (let k = length (py_last (sequence_length e3) (feature_buffer e3));
                kept = take (length (feature_buffer e3) - k) (feature_buffer e3);
                recent = map (fill_missing (feature_names e3))
                           (py_last (sequence_length e3) (feature_buffer e3));
                sq = map (feature_vector_of (feature_names e3)) recent;
                seq_label = (case labels of
                               Some (l # ls) \<Rightarrow> dict_get (l # ls) ''regime'' 1.0
                             | _ \<Rightarrow> 1.0)
            in e3\<lparr> feature_buffer := kept @ recent,
                   sequence_buffer :=
                     sequence_buffer_add (sequence_buffer_seq_len e3) sq seq_label
                       (sequence_buffer e3) \<rparr>)
         else e3)"

text \<open>A run of calls: each element is the clock, the feature map and the labels.\<close>

fun feed :: "(real \<times> pydict \<times> pydict option) list \<Rightarrow> ml_engine \<Rightarrow> ml_engine" where
  "feed [] e = e"
| "feed ((now, features, labels) # cs) e = feed cs (update_training_data now features labels e)"

section \<open>AdvancedRiskManager: position sizing\<close>

text \<open>
  Of the risk manager, \<open>calculate_position_size\<close> reads \<open>max_risk_per_trade\<close> and
  the \<open>'pnl'\<close> entries of \<open>trade_history\<close>, kept here as the list of those PnLs.
  \<open>np.mean\<close> of a non-empty list is its arithmetic mean.
\<close>

record risk_manager =
  max_risk_per_trade :: real
  trade_history :: "real list"

definition risk_manager_init :: risk_manager where
  "risk_manager_init = \<lparr> max_risk_per_trade = 0.02, trade_history = [] \<rparr>"

definition np_mean :: "real list \<Rightarrow> real" where
  "np_mean xs = sum_list xs / real (length xs)"

definition get_historical_win_rate :: "risk_manager \<Rightarrow> real" where
  "get_historical_win_rate rm =
     (if length (trade_history rm) < 5 then 0.5
      else real (length (filter (\<lambda>p. p > 0) (trade_history rm)))
             / real (length (trade_history rm)))"

definition get_average_win :: "risk_manager \<Rightarrow> real" where
  "get_average_win rm =
     (let winning_trades = filter (\<lambda>p. p > 0) (trade_history rm)
      in if winning_trades \<noteq> [] then np_mean winning_trades else 0)"

definition get_average_loss :: "risk_manager \<Rightarrow> real" where
  "get_average_loss rm =
     (let losing_trades = map abs (filter (\<lambda>p. p < 0) (trade_history rm))
      in if losing_trades \<noteq> [] then np_mean losing_trades else 0)"

datatype py_error = ZeroDivisionError | InternalError

text \<open>
  The body of the \<open>try\<close> block of \<open>calculate_position_size\<close>; \<open>Inl\<close> is a raised
  exception. Two divisions can meet a zero divisor.
  \<^item> \<open>1 / (1 + volatility * 2)\<close> raises \<open>ZeroDivisionError\<close> at volatility -0.5.
  \<^item> \<open>total_contracts / Config.LOT_SIZE\<close> raises it when the lot size is configured
    as 0 (the default is 75); the lot size is the argument \<open>lot_size\<close>.
  The Kelly quotient divides by \<open>avg_win\<close>, which is 0 only when no trade was won; the
  numerator is then \<open>-avg_loss\<close>, a negative numpy float, the quotient is numpy's
  \<open>-inf\<close> (a warning, no exception), and \<open>np.clip\<close> brings it to 0.
  \<open>account_value // 50000\<close> is the floor of the quotient; for a float account
  value Python hands the capped count back as a float with an integral value (2.0), which
  the type \<^typ>\<open>int\<close> of the result does not tell from 2.
\<close>

definition kelly_fraction_of :: "risk_manager \<Rightarrow> real" where
  "kelly_fraction_of rm =
     (let win_rate = get_historical_win_rate rm;
          avg_win = get_average_win rm;
          avg_loss = get_average_loss rm
      in if avg_win = 0 then 0
         else max 0 (min 0.25 ((win_rate * avg_win - (1 - win_rate) * avg_loss) / avg_win)))"

definition position_size_body ::
  "int \<Rightarrow> risk_manager \<Rightarrow> real \<Rightarrow> real \<Rightarrow> real \<Rightarrow> real \<Rightarrow> py_error + int" where
  "position_size_body lot_size rm account_value volatility confidence signal_strength =
     (let base_size =
            (if get_average_loss rm = 0 \<or> length (trade_history rm) < 10
             then account_value * 0.01
             else account_value * kelly_fraction_of rm)
      in if 1 + volatility * 2 = 0 then Inl ZeroDivisionError
         else
           let volatility_adjustment = 1 / (1 + volatility * 2);
               confidence_adjustment = min (confidence / 3.0) 1.0;
               strength_adjustment = min (signal_strength / 10.0) 1.0;
               position_size_money0 =
                 base_size * volatility_adjustment * confidence_adjustment
                   * strength_adjustment;
               max_position = account_value * max_risk_per_trade rm;
               position_size_money1 = min position_size_money0 max_position;
               min_position = account_value * 0.005;
               position_size_money = max position_size_money1 min_position;
               avg_option_price = 100;
               total_contracts = position_size_money / avg_option_price
           in if lot_size = 0 then Inl ZeroDivisionError
              else
                let lots = max 1 (py_round (total_contracts / real_of_int lot_size));
                    max_lots = max 1 \<lfloor>account_value / 50000\<rfloor>
                in Inr (min lots max_lots))"

text \<open>The \<open>except Exception\<close> handler returns 1 lot.\<close>

definition calculate_position_size ::
  "int \<Rightarrow> risk_manager \<Rightarrow> real \<Rightarrow> real \<Rightarrow> real \<Rightarrow> real \<Rightarrow> int" where
  "calculate_position_size lot_size rm account_value volatility confidence signal_strength =
     (case position_size_body lot_size rm account_value volatility confidence signal_strength of
        Inl e \<Rightarrow> 1
      | Inr lots \<Rightarrow> lots)"

section \<open>MarketRegimeDetector\<close>

text \<open>
  \<open>price_history\<close> is kept as the list of the \<open>'price'\<close> entries (the timestamps are
  never read); \<open>regime_history\<close> is the list of the records returned so far.

  \<open>np.std\<close> is the population standard deviation, \<open>np.diff\<close> the successive
  differences, \<open>np.polyfit(x, y, 1)\<close> over \<open>x = 0, 1, \<dots>\<close> the least-squares slope.
\<close>

record regime_info =
  ri_regime :: string
  ri_volatility :: real
  ri_trend_strength :: real
  ri_momentum :: real

record regime_detector =
  price_history :: "real list"
  regime_history :: "regime_info list"

definition np_std :: "real list \<Rightarrow> real" where
  "np_std xs = sqrt (np_mean (map (\<lambda>x. (x - np_mean xs)\<^sup>2) xs))"

fun np_diff :: "real list \<Rightarrow> real list" where
  "np_diff (x # y # ys) = (y - x) # np_diff (y # ys)"
| "np_diff _ = []"

definition polyfit_slope :: "real list \<Rightarrow> real" where
  "polyfit_slope ys =
     (let xs = map real [0 ..< length ys]; mx = np_mean xs; my = np_mean ys
      in sum_list (map (\<lambda>(x, y). (x - mx) * (y - my)) (zip xs ys))
           / sum_list (map (\<lambda>x. (x - mx)\<^sup>2) xs))"

text \<open>
  \<open>calculate_realized_volatility_from_history\<close>. \<open>np.log\<close> of a price that is not
  positive is \<open>-inf\<close> or NaN (a warning, no exception); the standard deviation of the
  differences is then NaN, \<open>min(2.0, nan)\<close> is 2.0 (the comparison \<open>nan < 2.0\<close> is
  false, so \<open>min\<close> keeps its first argument) and \<open>max(0.05, 2.0)\<close> is 2.0.
\<close>

definition calculate_realized_volatility_from_history :: "nat \<Rightarrow> regime_detector \<Rightarrow> real" where
  "calculate_realized_volatility_from_history window rd =
     (if length (price_history rd) < 2 then 0.2
      else
        let recent_history = py_last (min window (length (price_history rd))) (price_history rd)
        in if length recent_history < 2 then 0.2
           else
             let prices = recent_history
             in if \<exists>p \<in> set prices. p \<le> 0 then 2.0
                else
                  let returns = np_diff (map ln prices)
                  in if length returns = 0 then 0.2
                     else max 0.05 (min 2.0 (np_std returns * sqrt (252 * 375))))"

definition calculate_trend_strength :: "nat \<Rightarrow> regime_detector \<Rightarrow> real" where
  "calculate_trend_strength window rd =
     (if length (price_history rd) < 2 then 0
      else
        let prices = py_last (min window (length (price_history rd))) (price_history rd)
        in if length prices < 2 then 0
           else
             let slope = polyfit_slope prices;
                 trend_strength = (if np_mean prices > 0 then slope / np_mean prices else 0)
             in max (- 1.0) (min 1.0 trend_strength))"

text \<open>
  \<open>calculate_momentum\<close> is called with its default window of 10; \<open>history[-window]\<close>
  is the element \<open>window\<close> places from the end. A window of 0, which no caller passes,
  is given the neutral 0.
\<close>

definition calculate_momentum :: "nat \<Rightarrow> regime_detector \<Rightarrow> real" where
  "calculate_momentum window rd =
     (if length (price_history rd) < window \<or> window = 0 then 0
      else
        let current_price = last (price_history rd);
            past_price = price_history rd ! (length (price_history rd) - window)
        in if past_price \<le> 0 then 0
           else max (- 1.0) (min 1.0 ((current_price - past_price) / past_price)))"

definition regime_label :: "real \<Rightarrow> real \<Rightarrow> string" where
  "regime_label volatility trend_strength =
     (if volatility < 0.15 then
        (if \<bar>trend_strength\<bar> > 0.6 then ''trending_low_vol'' else ''sideways_low_vol'')
      else if volatility < 0.25 then
        (if \<bar>trend_strength\<bar> > 0.6 then ''trending_medium_vol'' else ''sideways_medium_vol'')
      else
        (if \<bar>trend_strength\<bar> > 0.6 then ''trending_high_vol'' else ''sideways_high_vol''))"

definition default_regime_info :: regime_info where
  "default_regime_info =
     \<lparr> ri_regime = ''unknown'', ri_volatility = 0.2, ri_trend_strength = 0, ri_momentum = 0 \<rparr>"

text \<open>
  The body of the \<open>try\<close> block of \<open>detect_regime\<close>. The three calculations catch their
  own exceptions, and with numeric prices no other statement of the block raises; the
  argument \<open>fault\<close> stands for an exception from outside the model (it is raised before
  the result is stored), so that the handler of \<open>detect_regime\<close> has a branch to take.
  The price is appended before the fault can occur, as in the source, and stays appended.
\<close>

definition record_price :: "real option \<Rightarrow> regime_detector \<Rightarrow> regime_detector" where
  "record_price underlying_value rd =
     (case underlying_value of
        None \<Rightarrow> rd
      | Some v \<Rightarrow>
          let ph = price_history rd @ [v]
          in rd\<lparr> price_history := (if length ph > 100 then py_last 100 ph else ph) \<rparr>)"

definition detect_regime_body ::
  "py_error option \<Rightarrow> real option \<Rightarrow> regime_detector
     \<Rightarrow> (py_error \<times> regime_detector) + (regime_info \<times> regime_detector)" where
  "detect_regime_body fault underlying_value rd =
     (let rd1 = record_price underlying_value rd;
          volatility = calculate_realized_volatility_from_history 20 rd1;
          trend_strength = calculate_trend_strength 20 rd1;
          momentum = calculate_momentum 10 rd1
      in case fault of
           Some e \<Rightarrow> Inl (e, rd1)
         | None \<Rightarrow>
             let info = \<lparr> ri_regime = regime_label volatility trend_strength,
                           ri_volatility = volatility, ri_trend_strength = trend_strength,
                           ri_momentum = momentum \<rparr>
             in Inr (info, rd1\<lparr> regime_history := regime_history rd1 @ [info] \<rparr>))"

definition detect_regime ::
  "py_error option \<Rightarrow> real option \<Rightarrow> regime_detector \<Rightarrow> regime_info \<times> regime_detector" where
  "detect_regime fault underlying_value rd =
     (case detect_regime_body fault underlying_value rd of
        Inl (e, rd1) \<Rightarrow> (default_regime_info, rd1)
      | Inr res \<Rightarrow> res)"

section \<open>AdvancedMLDecisionEngine: labels and batch training\<close>

text \<open>
  \<open>generate_training_labels(features, pnl, trade_data)\<close>. Of \<open>trade_data\<close> only the
  keys \<open>'exit_reason'\<close>, \<open>'entry_price'\<close> and \<open>'max_profit'\<close> are read; a key that
  is absent is \<open>None\<close> here, and \<open>None\<close> or the empty dict is the record with no key.
  The function has no handler of its own: the quotient by an \<open>'entry_price'\<close> of 0
  raises. The features are numbers, so \<open>'trending' in str(regime).lower()\<close> is false
  and the default trailing stop of the PnL branch is 0.6.
\<close>

record trade_context =
  tc_exit_reason :: "string option"
  tc_entry_price :: "real option"
  tc_max_profit :: "real option"

definition no_trade_context :: trade_context where
  "no_trade_context = \<lparr> tc_exit_reason = None, tc_entry_price = None, tc_max_profit = None \<rparr>"

definition generate_training_labels ::
  "pydict \<Rightarrow> real option \<Rightarrow> trade_context \<Rightarrow> py_error + pydict" where
  "generate_training_labels features pnl_opt trade_data =
     (let pcr_oi = dict_get features ''pcr_oi'' 1.0;
          time_of_day = dict_get features ''time_of_day'' 12.0;
          call_ltp_change = dict_get features ''call_ltp_change'' 0;
          put_ltp_change = dict_get features ''put_ltp_change'' 0;
          volatility = dict_get features ''realized_volatility'' 0.2;
          confidence_score = dict_get features ''confidence_score'' 0.5
      in case pnl_opt of
           Some pnl_v \<Rightarrow>
             let l_regime = (if pnl_v > 10 then 1 else if pnl_v < - 10 then - 1 else 0);
                 l_confidence = (if \<bar>pnl_v\<bar> > 25 then 2 else if \<bar>pnl_v\<bar> > 10 then 1 else 0);
                 l_pattern = (if pnl_v > 10 then 3 else if pnl_v < - 10 then 2 else 0);
                 l_direction = (if pnl_v > 5 then 1 else if pnl_v < - 5 then - 1 else 0);
                 l_size =
                   (if pnl_v > 20 then min 1.0 (0.8 + confidence_score * 0.2)
                    else if pnl_v > 10 then min 0.8 (0.6 + confidence_score * 0.2)
                    else if pnl_v > 0 then min 0.6 (0.4 + confidence_score * 0.2)
                    else if pnl_v > - 10 then max 0.2 (0.4 - volatility * 0.2)
                    else max 0.1 (0.2 - volatility * 0.1));
                 entry = (case tc_entry_price trade_data of None \<Rightarrow> 100 | Some p \<Rightarrow> p);
                 l_trailing =
                   (case tc_max_profit trade_data of
                      Some mx \<Rightarrow>
                        (if mx > 15 \<and> pnl_v > 5 then 0.6
                         else if mx > 15 \<and> pnl_v < 0 then 0.4
                         else if mx > 5 then 0.5
                         else 0.7)
                    | None \<Rightarrow> 0.6);
                 finish = (\<lambda>l_stop.
                   Inr [(''regime'', l_regime), (''confidence'', l_confidence),
                        (''pattern'', l_pattern), (''signal_direction'', l_direction),
                        (''position_size'', l_size), (''stop_loss_pct'', l_stop),
                        (''trailing_stop_pct'', l_trailing)])
             in (case tc_exit_reason trade_data of
                   Some reason \<Rightarrow>
                     (if reason = ''Stop Loss'' \<and> pnl_v < 0 then
                        (if entry = 0 then Inl ZeroDivisionError
                         else finish (min 0.15 (\<bar>pnl_v / entry\<bar> * 1.5)))
                      else if pnl_v < - 15 then
                        (if entry = 0 then Inl ZeroDivisionError
                         else finish (max 0.05 (\<bar>pnl_v / entry\<bar> * 0.7)))
                      else finish 0.10)
                 | None \<Rightarrow> finish (max 0.05 (min 0.15 (volatility * 0.5))))
         | None \<Rightarrow>
             Inr [(''regime'',
                     (if pcr_oi > 1.3 \<and> put_ltp_change > 0 then - 1
                      else if pcr_oi < 0.8 \<and> call_ltp_change > 0 then 1 else 0)),
                  (''confidence'',
                     (if volatility > 0.3 \<or> time_of_day < 10 \<or> time_of_day > 14 then 1
                      else if 0.15 < volatility \<and> volatility < 0.25
                              \<and> 10 \<le> time_of_day \<and> time_of_day \<le> 14 then 2
                      else 0)),
                  (''pattern'',
                     (if \<bar>call_ltp_change\<bar> > \<bar>put_ltp_change\<bar> \<and> \<bar>call_ltp_change\<bar> > 2 then 1
                      else if \<bar>put_ltp_change\<bar> > \<bar>call_ltp_change\<bar> \<and> \<bar>put_ltp_change\<bar> > 2
                        then 2
                      else 0)),
                  (''signal_direction'',
                     (if pcr_oi > 1.4 \<and> put_ltp_change > call_ltp_change then 1
                      else if pcr_oi < 0.7 \<and> call_ltp_change > put_ltp_change then - 1
                      else 0)),
                  (''position_size'',
                     (if volatility > 0.3 then 0.3 else if volatility < 0.15 then 0.7 else 0.5)),
                  (''stop_loss_pct'', max 0.05 (min 0.15 (volatility * 0.5))),
                  (''trailing_stop_pct'',
                     (if \<bar>call_ltp_change\<bar> > 5 \<or> \<bar>put_ltp_change\<bar> > 5 then 0.4 else 0.6))])"

text \<open>
  The labels \<open>train_models\<close> uses for a sample: the stored ones, or generated ones when
  the stored labels are \<open>None\<close> or empty (with the sample's \<open>'pnl'\<close> feature, 0 if
  absent, and the empty trade data).
\<close>

definition sample_labels :: "sample \<Rightarrow> py_error + pydict" where
  "sample_labels smp =
     (case s_labels smp of
        Some (l # ls) \<Rightarrow> Inr (l # ls)
      | _ \<Rightarrow> generate_training_labels (s_features smp)
               (Some (dict_get (s_features smp) ''pnl'' 0)) no_trade_context)"

fun collect_labels :: "sample list \<Rightarrow> py_error + pydict list" where
  "collect_labels [] = Inr []"
| "collect_labels (smp # smps) =
     (case sample_labels smp of
        Inl e \<Rightarrow> Inl e
      | Inr l \<Rightarrow> (case collect_labels smps of Inl e \<Rightarrow> Inl e | Inr ls \<Rightarrow> Inr (l # ls)))"

text \<open>\<open>len(np.unique(y)) >= 2\<close>.\<close>

definition has_sufficient_diversity :: "real list \<Rightarrow> bool" where
  "has_sufficient_diversity y_array = (length (remdups y_array) \<ge> 2)"

text \<open>
  One row of the design matrix brought into \<open>trained_feature_names\<close> order, as
  \<open>train_models\<close> and \<open>predict\<close> do: by \<open>feature_names.index\<close> (the first position
  of a name) when every column is matched, else by the \<open>name_to_idx\<close> dict (the last
  position of a name) with 0 for a name that the schema does not hold.
\<close>

definition reorder_row :: "string list \<Rightarrow> string list \<Rightarrow> real list \<Rightarrow> real list" where
  "reorder_row names trained xrow =
     (if trained = [] then xrow
      else
        let present = filter (\<lambda>n. n \<in> set names) trained
        in if length present = length xrow
           then map (\<lambda>n. case map_of (zip names xrow) n of Some v \<Rightarrow> v | None \<Rightarrow> 0) present
           else map (\<lambda>n. case map_of (rev (zip names xrow)) n of Some v \<Rightarrow> v | None \<Rightarrow> 0)
                  trained)"

text \<open>
  \<open>train_models\<close>. The estimators are opaque; \<open>fitted\<close> collects the roles whose
  \<open>fit\<close> has been called, and a \<open>fit\<close> on a finite matrix with at least two classes
  is taken to return. The SHAP report and \<open>save_models\<close> write files only. The result is
  the returned boolean and the engine after the call.
\<close>

definition train_models :: "ml_engine \<Rightarrow> bool \<times> ml_engine" where
  "train_models e =
     (if length (training_data e) < min_training_samples e then (False, e)
      else case collect_labels (training_data e) of
        Inl err \<Rightarrow> (False, e)
      | Inr labels \<Rightarrow>
          let X = map (\<lambda>smp. feature_vector_of (feature_names e) (s_features smp))
                    (training_data e);
              y_regime = map (\<lambda>l. dict_get l ''regime'' 0) labels;
              y_confidence = map (\<lambda>l. dict_get l ''confidence'' 1) labels;
              y_pattern = map (\<lambda>l. dict_get l ''pattern'' 0) labels;
              y_signal_direction = map (\<lambda>l. dict_get l ''signal_direction'' 0) labels
          in if X = [] \<or> feature_names e = [] then (False, e)
             else
               let e1 = (if trained_feature_names e = []
                         then e\<lparr> trained_feature_names := feature_names e \<rparr> else e);
                   diversity_check =
                     [(''regime'', has_sufficient_diversity y_regime),
                      (''confidence'', has_sufficient_diversity y_confidence),
                      (''pattern'', has_sufficient_diversity y_pattern),
                      (''signal_direction'', has_sufficient_diversity y_signal_direction)];
                   insufficient_diversity =
                     map fst (filter (\<lambda>(name, has_div). \<not> has_div) diversity_check)
               in if insufficient_diversity \<noteq> [] then (False, e1)
                  else
                    let X_ordered =
                          map (reorder_row (feature_names e1) (trained_feature_names e1)) X;
                        e2 = e1\<lparr> scaler_n_features := Some (length (hd X_ordered)) \<rparr>;
                        diverse = (\<lambda>name. map_of diversity_check name = Some True);
                        trained1 =
                          (if diverse ''regime'' then [''regime_classifier''] else []) @
                          (if diverse ''confidence'' then [''signal_confidence''] else []) @
                          (if diverse ''pattern'' then [''pattern_detector''] else []) @
                          (if diverse ''signal_direction'' then [''signal_direction''] else []);
                        trained2 = trained1 @
                          [''position_sizer'', ''stop_loss_predictor'',
                           ''trailing_stop_predictor''];
                        trained3 =
                          (if length X \<ge> 50 \<and> ''regime_classifier'' \<in> set trained2
                              \<and> ''signal_confidence'' \<in> set trained2
                              \<and> has_sufficient_diversity y_regime
                           then trained2 @ [''meta_learner''] else trained2);
                        e3 = e2\<lparr> fitted := fitted e2 \<union> set trained3 \<rparr>;
                        deep_model_trained =
                          (length (feature_buffer e3) \<ge> sequence_length e3
                             \<and> length (sequence_buffer e3) \<ge> 100);
                        e4 = (if deep_model_trained then
                                e3\<lparr> deep_model := (deep_model e3)
                                       \<lparr> lstm_train_calls :=
                                           lstm_train_calls (deep_model e3) + 1 \<rparr>,
                                     optimizer := (optimizer e3)
                                       \<lparr> adam_train_calls :=
                                           adam_train_calls (optimizer e3) + 1 \<rparr> \<rparr>
                              else e3);
                        models_trained =
                          (if deep_model_trained then trained3 @ [''deep_model'']
                           else trained3)
                    in if models_trained \<noteq> [] then (True, e4\<lparr> is_trained := True \<rparr>)
                       else (False, e4))"

section \<open>AdvancedMLDecisionEngine: prediction\<close>

text \<open>
  The fitted estimators, the scaler and the sequence network are library objects; each is
  a function of its input here, with \<open>None\<close> for a call that raises (an estimator that
  was never fit, a width that does not match). \<open>meta_learner_predict\<close> gives the class
  and the probability vector of the meta-learner, \<open>deep_model_predict\<close> the regime and
  the confidence of \<open>predict_with_deep_model\<close> on a full window.
\<close>

record estimators =
  scaler_transform :: "real list \<Rightarrow> real list option"
  regime_classifier_predict :: "real list \<Rightarrow> int option"
  signal_confidence_predict_proba :: "real list \<Rightarrow> real list option"
  pattern_detector_predict :: "real list \<Rightarrow> int option"
  signal_direction_predict :: "real list \<Rightarrow> int option"
  position_sizer_predict :: "real list \<Rightarrow> real option"
  stop_loss_predictor_predict :: "real list \<Rightarrow> real option"
  trailing_stop_predictor_predict :: "real list \<Rightarrow> real option"
  meta_learner_predict :: "real list \<Rightarrow> (int \<times> real list) option"
  deep_model_predict :: "real list list \<Rightarrow> (int \<times> real) option"

record prediction =
  pr_regime :: int
  pr_confidence :: real
  pr_pattern :: int
  pr_signal_direction :: int
  pr_tradetron_signal :: int
  pr_position_size :: real
  pr_stop_loss_pct :: real
  pr_trailing_stop_pct :: real
  pr_deep_learning_used :: bool

fun list_max :: "real list \<Rightarrow> real" where
  "list_max [] = 0"
| "list_max [x] = x"
| "list_max (x # y # ys) = max x (list_max (y # ys))"

text \<open>
  \<open>predict_with_deep_model\<close>: nothing for a sequence shorter than the window, else the
  network on the last \<open>sequence_length\<close> vectors.
\<close>

definition predict_with_deep_model ::
  "estimators \<Rightarrow> nat \<Rightarrow> real list list \<Rightarrow> (int \<times> real) option" where
  "predict_with_deep_model ms seq_len sq =
     (if length sq < seq_len then None else deep_model_predict ms (py_last seq_len sq))"

text \<open>
  \<open>predict(features)\<close>, block by block. The vector is read in \<open>feature_names\<close>
  order, so its length is that of the schema and the padding block of the source is never
  entered. \<open>scale_features\<close> is the scaling block: when the scaler raises, the unscaled
  vector is used, restricted to the trained names that the schema holds.
\<close>

definition scale_features :: "estimators \<Rightarrow> ml_engine \<Rightarrow> real list \<Rightarrow> real list" where
  "scale_features ms e feature_vector =
     (let names = feature_names e; trained = trained_feature_names e
      in case scaler_transform ms (reorder_row names trained feature_vector) of
           Some z \<Rightarrow> z
         | None \<Rightarrow>
             (if trained = [] then feature_vector
              else map (\<lambda>n. case map_of (zip names feature_vector) n of
                               Some v \<Rightarrow> v | None \<Rightarrow> 0)
                     (filter (\<lambda>n. n \<in> set names) trained)))"

text \<open>
  The sequence-model block. The dicts of the feature buffer get 0.0 stored under the names
  they lack; every read of them uses the default 0, so only the value of \<open>deep_pred\<close> is
  modelled. \<open>list(buf)[-(n-1):]\<close> is the whole buffer for \<open>n = 1\<close> and \<open>buf[1:]\<close>
  for \<open>n = 0\<close>.
\<close>

definition deep_prediction ::
  "estimators \<Rightarrow> ml_engine \<Rightarrow> real list \<Rightarrow> (int \<times> real) option" where
  "deep_prediction ms e feature_vector =
     (if length (feature_buffer e) + 1 \<ge> sequence_length e then
        (let recent_features =
               (if sequence_length e = 0 then drop 1 (feature_buffer e)
                else py_last (sequence_length e - 1) (feature_buffer e));
             sequence_vectors =
               map (\<lambda>d. feature_vector_of (feature_names e) (fill_missing (feature_names e) d))
                 recent_features
                 @ [feature_vector]
         in predict_with_deep_model ms (sequence_length e) sequence_vectors)
      else None)"

text \<open>
  The meta-learner block: its class and its largest probability when it answers, the base
  classifiers' values when it raises; either pair is averaged with the sequence model's
  when that gave a prediction.
\<close>

definition average_with_deep :: "(int \<times> real) option \<Rightarrow> int \<times> real \<Rightarrow> int \<times> real" where
  "average_with_deep deep_pred rc =
     (case deep_pred of
        Some (deep_regime, deep_confidence) \<Rightarrow>
          (py_round (real_of_int (fst rc + deep_regime + 1) / 2) - 1,
           (snd rc + deep_confidence) / 2)
      | None \<Rightarrow> rc)"

definition final_regime_confidence ::
  "estimators \<Rightarrow> real list \<Rightarrow> int \<Rightarrow> real \<Rightarrow> (int \<times> real) option \<Rightarrow> int \<times> real" where
  "final_regime_confidence ms X_scaled regime_pred confidence deep_pred =
     (case meta_learner_predict ms X_scaled of
        Some (meta_regime, meta_proba) \<Rightarrow>
          average_with_deep deep_pred
            (meta_regime, (if length meta_proba > 0 then list_max meta_proba else confidence))
      | None \<Rightarrow> average_with_deep deep_pred (regime_pred, confidence))"

text \<open>
  The last block: the three clamps, the external signal code, the floor on the confidence
  of a directional signal, and the returned dict.
\<close>

definition assemble_prediction ::
  "int \<times> real \<Rightarrow> int \<Rightarrow> int \<Rightarrow> real \<Rightarrow> real \<Rightarrow> real \<Rightarrow> bool \<Rightarrow> prediction" where
  "assemble_prediction final pattern signal_direction position_size0 stop_loss_pct0
       trailing_stop_pct0 deep_used =
     (let position_size1 = max 0.1 (min 1.0 position_size0);
          stop_loss_pct1 = max 0.05 (min 0.20 stop_loss_pct0);
          trailing_stop_pct1 = max 0.3 (min 0.8 trailing_stop_pct0);
          tradetron_signal =
            (if signal_direction = 1 then 1 else if signal_direction = - 1 then - 1 else 0);
          final_confidence =
            (if \<bar>signal_direction\<bar> = 1 then max (snd final) 0.7 else snd final)
      in \<lparr> pr_regime = fst final, pr_confidence = final_confidence,
           pr_pattern = pattern, pr_signal_direction = signal_direction,
           pr_tradetron_signal = tradetron_signal, pr_position_size = position_size1,
           pr_stop_loss_pct = stop_loss_pct1, pr_trailing_stop_pct = trailing_stop_pct1,
           pr_deep_learning_used = deep_used \<rparr>)"

text \<open>
  The \<open>try\<close> block of \<open>predict\<close>: each estimator is asked in turn and a call that
  raises leaves the neutral default (regime 0, confidence 0.5, pattern 0, direction 0,
  size 0.5, stop 0.10, trailing 0.5). An empty probability vector raises on
  \<open>confidence_proba[0]\<close> and leaves 0.5 as well.
\<close>

definition predict_body :: "estimators \<Rightarrow> pydict \<Rightarrow> ml_engine \<Rightarrow> prediction" where
  "predict_body ms features e =
     (let feature_vector = feature_vector_of (feature_names e) features;
          X_scaled = scale_features ms e feature_vector;
          regime_pred =
            (case regime_classifier_predict ms X_scaled of Some r \<Rightarrow> r | None \<Rightarrow> 0);
          confidence =
            (case signal_confidence_predict_proba ms X_scaled of
               Some proba \<Rightarrow>
                 (if length proba > 1 then proba ! 1
                  else if proba = [] then 0.5 else proba ! 0)
             | None \<Rightarrow> 0.5);
          pattern =
            (case pattern_detector_predict ms X_scaled of Some r \<Rightarrow> r | None \<Rightarrow> 0);
          signal_direction =
            (case signal_direction_predict ms X_scaled of Some r \<Rightarrow> r | None \<Rightarrow> 0);
          position_size0 =
            (case position_sizer_predict ms X_scaled of Some r \<Rightarrow> r | None \<Rightarrow> 0.5);
          stop_loss_pct0 =
            (case stop_loss_predictor_predict ms X_scaled of Some r \<Rightarrow> r | None \<Rightarrow> 0.10);
          trailing_stop_pct0 =
            (case trailing_stop_predictor_predict ms X_scaled of Some r \<Rightarrow> r | None \<Rightarrow> 0.5);
          deep_pred = deep_prediction ms e feature_vector;
          final = final_regime_confidence ms X_scaled regime_pred confidence deep_pred
      in assemble_prediction final pattern signal_direction position_size0 stop_loss_pct0
           trailing_stop_pct0 (deep_pred \<noteq> None))"

text \<open>\<open>predict(features)\<close>: \<open>None\<close> before training or with an empty schema.\<close>

definition predict :: "estimators \<Rightarrow> pydict \<Rightarrow> ml_engine \<Rightarrow> prediction option" where
  "predict ms features e =
     (if \<not> is_trained e \<or> feature_names e = [] then None
      else Some (predict_body ms features e))"

section \<open>Feature extraction and the rule-based signal\<close>

text \<open>
  \<open>validate_and_clean_features\<close>: the values are finite numbers here, so the cleaning
  loop copies them; then each bounded feature that is present is clamped, and each scaled
  feature that is present is divided by its factor. An empty dict gives \<open>None\<close>.
\<close>

definition dict_map_key :: "string \<Rightarrow> (real \<Rightarrow> real) \<Rightarrow> pydict \<Rightarrow> pydict" where
  "dict_map_key k f d = map (\<lambda>(k', v). if k' = k then (k', f v) else (k', v)) d"

definition feature_bounds :: "(string \<times> real \<times> real) list" where
  "feature_bounds =
     [(''volatility'', 0.05, 2.0), (''pcr_oi'', 0.1, 10.0), (''pcr_volume'', 0.1, 10.0),
      (''time_of_day'', 0.0, 24.0), (''underlying_price'', 10000, 30000),
      (''atm_call_ltp'', 0.1, 1000), (''atm_put_ltp'', 0.1, 1000),
      (''call_oi_change_pct'', - 50, 50), (''put_oi_change_pct'', - 50, 50)]"

definition scaling_factors :: "(string \<times> real) list" where
  "scaling_factors =
     [(''atm_call_oi'', 100000), (''atm_put_oi'', 100000),
      (''total_call_oi'', 1000000), (''total_put_oi'', 1000000),
      (''atm_call_volume'', 10000), (''atm_put_volume'', 10000),
      (''total_call_volume'', 100000), (''total_put_volume'', 100000)]"

fun apply_bounds :: "(string \<times> real \<times> real) list \<Rightarrow> pydict \<Rightarrow> pydict" where
  "apply_bounds [] d = d"
| "apply_bounds ((k, lo, hi) # bs) d =
     apply_bounds bs (dict_map_key k (\<lambda>v. max lo (min hi v)) d)"

fun apply_scaling :: "(string \<times> real) list \<Rightarrow> pydict \<Rightarrow> pydict" where
  "apply_scaling [] d = d"
| "apply_scaling ((k, scale) # ss) d = apply_scaling ss (dict_map_key k (\<lambda>v. v / scale) d)"

definition validate_and_clean_features :: "pydict \<Rightarrow> pydict option" where
  "validate_and_clean_features features =
     (if features = [] then None
      else Some (apply_scaling scaling_factors (apply_bounds feature_bounds features)))"

text \<open>
  \<open>extract_features(current_data, historical_data, underlying_value, atm_strike)\<close>.
  \<open>datetime.now()\<close> is the argument \<open>clk\<close>; \<open>historical_data\<close> is the list of the
  stored snapshots in the order of their sorted timestamps, so that
  \<open>sorted_times[-2]\<close> is the last but one. The divisors are \<open>max(\<dots>, 1)\<close> or
  \<open>max(\<dots>, 0.01)\<close> and never 0. \<open>basic_features\<close> holds the basic, ATM, ratio,
  aggregate and temporal features in the order they are stored, \<open>historical_features\<close>
  the change features against the last but one stored snapshot.
\<close>

record clock =
  clk_hour :: nat
  clk_minute :: nat

definition change_features :: "row \<Rightarrow> row \<Rightarrow> pydict" where
  "change_features cur prev =
     concat (map (\<lambda>(name, field).
                    [(name @ ''_change'', field cur - field prev),
                     (name @ ''_change_pct'', (field cur - field prev) / max (field prev) 1 * 100)])
               [(''call_oi'', Call_OI), (''put_oi'', Put_OI), (''call_volume'', Call_Volume),
                (''put_volume'', Put_Volume), (''call_ltp'', Call_LTP), (''put_ltp'', Put_LTP)])"

definition basic_features :: "snapshot \<Rightarrow> real \<Rightarrow> real \<Rightarrow> row \<Rightarrow> clock \<Rightarrow> pydict" where
  "basic_features df uv k atm_row clk =
     (let h = real (clk_hour clk); m = real (clk_minute clk)
      in [(''underlying_price'', uv), (''atm_strike'', k),
          (''price_strike_diff'', uv - k),
          (''price_strike_ratio'', (if k > 0 then uv / k else 1.0)),
          (''atm_call_oi'', Call_OI atm_row), (''atm_put_oi'', Put_OI atm_row),
          (''atm_call_volume'', Call_Volume atm_row),
          (''atm_put_volume'', Put_Volume atm_row),
          (''atm_call_ltp'', Call_LTP atm_row), (''atm_put_ltp'', Put_LTP atm_row),
          (''pcr_oi'', Put_OI atm_row / max (Call_OI atm_row) 1),
          (''pcr_volume'', Put_Volume atm_row / max (Call_Volume atm_row) 1),
          (''call_put_ltp_ratio'', Call_LTP atm_row / max (Put_LTP atm_row) 0.01),
          (''total_call_oi'', sum_list (map Call_OI df)),
          (''total_put_oi'', sum_list (map Put_OI df)),
          (''total_call_volume'', sum_list (map Call_Volume df)),
          (''total_put_volume'', sum_list (map Put_Volume df)),
          (''hour'', h), (''minute'', m), (''time_of_day'', h + m / 60.0),
          (''is_opening'', (if clk_hour clk = 9 \<and> clk_minute clk < 30 then 1 else 0)),
          (''is_closing'', (if clk_hour clk \<ge> 15 then 1 else 0)),
          (''is_mid_session'',
             (if 10 \<le> clk_hour clk \<and> clk_hour clk \<le> 14 then 1 else 0))])"

definition historical_features :: "snapshot list \<Rightarrow> real \<Rightarrow> row \<Rightarrow> pydict" where
  "historical_features historical_data k atm_row =
     (if length historical_data \<ge> 2 then
        (case strike_row k (historical_data ! (length historical_data - 2)) of
           None \<Rightarrow> []
         | Some prev_atm_row \<Rightarrow> change_features atm_row prev_atm_row)
      else [])"

definition extract_features ::
  "ml_engine \<Rightarrow> snapshot option \<Rightarrow> snapshot list \<Rightarrow> real option \<Rightarrow> real option \<Rightarrow> clock
     \<Rightarrow> pydict option" where
  "extract_features e current_data historical_data underlying_value atm_strike clk =
     (case (current_data, underlying_value, atm_strike) of
        (Some df, Some uv, Some k) \<Rightarrow>
          (case strike_row k df of
             None \<Rightarrow> None
           | Some atm_row \<Rightarrow>
               validate_and_clean_features
                 (fill_missing (feature_names e)
                    (basic_features df uv k atm_row clk
                       @ historical_features historical_data k atm_row)))
      | _ \<Rightarrow> None)"

text \<open>
  \<open>traditional_analysis\<close>. The nineteen features read with \<open>features[\<dots>]\<close> raise a
  \<open>KeyError\<close> when absent, which the handler turns into \<open>(0, 0)\<close>; the four change
  features are read with \<open>.get(\<dots>, 0)\<close>. The seven rules update \<open>signal\<close> and
  \<open>strength\<close> in the order of the source.
\<close>

definition required_features :: "string list" where
  "required_features =
     [''price_strike_ratio'', ''price_strike_diff'', ''atm_call_volume'', ''atm_put_volume'',
      ''total_call_volume'', ''total_put_volume'', ''pcr_volume'', ''atm_call_oi'',
      ''atm_put_oi'', ''total_call_oi'', ''total_put_oi'', ''pcr_oi'', ''atm_call_ltp'',
      ''atm_put_ltp'', ''call_put_ltp_ratio'', ''time_of_day'', ''is_opening'',
      ''is_closing'', ''is_mid_session'']"

definition signal_rules :: "pydict \<Rightarrow> int \<times> int" where
  "signal_rules features =
     (let call_volume = dict_get features ''atm_call_volume'' 0;
          put_volume = dict_get features ''atm_put_volume'' 0;
          call_oi = dict_get features ''atm_call_oi'' 0;
          put_oi = dict_get features ''atm_put_oi'' 0;
          pcr_oi = dict_get features ''pcr_oi'' 0;
          call_put_ratio = dict_get features ''call_put_ltp_ratio'' 0;
          call_oi_change = dict_get features ''call_oi_change'' 0;
          put_oi_change = dict_get features ''put_oi_change'' 0;
          call_volume_change = dict_get features ''call_volume_change'' 0;
          put_volume_change = dict_get features ''put_volume_change'' 0;
          is_opening = dict_get features ''is_opening'' 0;
          is_closing = dict_get features ''is_closing'' 0;
          is_mid_session = dict_get features ''is_mid_session'' 0;
          (signal1, strength1) =
            (if call_volume > put_volume * 1.5 \<and> call_volume > 100 then (1, 2)
             else if put_volume > call_volume * 1.5 \<and> put_volume > 100 then (- 1, 2)
             else (0, 0));
          (signal2, strength2) =
            (if call_oi > put_oi * 1.2 then
               (if signal1 \<ge> 0 then (1, strength1 + 1) else (signal1, strength1))
             else if put_oi > call_oi * 1.2 then
               (if signal1 \<le> 0 then (- 1, strength1 + 1) else (signal1, strength1))
             else (signal1, strength1));
          strength3 =
            (if call_oi_change > 0 \<and> call_oi_change > \<bar>put_oi_change\<bar> then
               (if signal2 \<ge> 0 then strength2 + 1 else strength2)
             else if put_oi_change > 0 \<and> put_oi_change > \<bar>call_oi_change\<bar> then
               (if signal2 \<le> 0 then strength2 + 1 else strength2)
             else strength2);
          strength4 =
            (if pcr_oi > 1.5 then (if signal2 = 1 then strength3 + 1 else strength3)
             else if pcr_oi < 0.7 then (if signal2 = - 1 then strength3 + 1 else strength3)
             else strength3);
          strength5 =
            (if call_volume_change > 100 \<and> call_volume_change > \<bar>put_volume_change\<bar> then
               (if signal2 \<ge> 0 then strength4 + 1 else strength4)
             else if put_volume_change > 100 \<and> put_volume_change > \<bar>call_volume_change\<bar> then
               (if signal2 \<le> 0 then strength4 + 1 else strength4)
             else strength4);
          strength6 =
            (if is_opening \<noteq> 0 then max 0 (strength5 - 1)
             else if is_mid_session \<noteq> 0 then
               (if strength5 > 0 then strength5 + 1 else strength5)
             else if is_closing \<noteq> 0 then max 0 (strength5 - 1)
             else strength5);
          strength7 =
            (if call_put_ratio > 1.3 \<and> signal2 = 1 then strength6 + 1
             else if call_put_ratio < 0.7 \<and> signal2 = - 1 then strength6 + 1
             else strength6);
          (signal8, strength8) = (if strength7 < 2 then (0, 0) else (signal2, strength7));
          strength9 = min 10 strength8
      in if signal8 \<noteq> - 1 \<and> signal8 \<noteq> 0 \<and> signal8 \<noteq> 1 then (0, 0)
         else (signal8, strength9))"

definition traditional_analysis ::
  "ml_engine \<Rightarrow> snapshot option \<Rightarrow> snapshot list \<Rightarrow> real option \<Rightarrow> real option \<Rightarrow> clock
     \<Rightarrow> int \<times> int" where
  "traditional_analysis e current_data historical_data underlying_value atm_strike clk =
     (case extract_features e current_data historical_data underlying_value atm_strike clk of
        None \<Rightarrow> (0, 0)
      | Some features \<Rightarrow>
          if \<exists>k \<in> set required_features. k \<notin> set (dict_keys features) then (0, 0)
          else signal_rules features)"

section \<open>Concrete states and snapshots used in the examples\<close>

definition returned_reason :: "(int \<times> real \<times> trade_data) option \<Rightarrow> string option" where
  "returned_reason res = map_option (\<lambda>(outcome, final_pnl, td). td_exit_reason td) res"

text \<open>
  An OPEN short put entered at 100 on strike 24000, with the stop at 110 and the target at
  60, and a one-row snapshot quoting a strike with a call and a put price.
\<close>

definition open_pos :: paper_trade where
  "open_pos =
     \<lparr> position = Some SHORT_PUT, entry_price = 100, entry_time = Some 0,
       entry_strike = 24000, direction = 1, active = True, pnl = 0, is_short = True,
       max_profit = 0, position_size = 1, regime = ''unknown'', stop_loss = 110,
       profit_target = 60, ml_trailing_stop_pct = Some 0.5 \<rparr>"

definition quote :: "real \<Rightarrow> real \<Rightarrow> real \<Rightarrow> row" where
  "quote k c p =
     \<lparr> Strike = k, Call_OI = 0, Call_Change_OI = 0, Call_Volume = 0, Call_LTP = c,
       Put_OI = 0, Put_Change_OI = 0, Put_Volume = 0, Put_LTP = p \<rparr>"

text \<open>
  An engine with an empty schema (as after loading a model file that stores none) fed two
  feature maps, and an engine whose sequence model has gone through seven training calls.
\<close>

definition schema_engine :: ml_engine where
  "schema_engine = ml_engine_init\<lparr> feature_names := [] \<rparr>"

definition schema_run :: "(real \<times> pydict \<times> pydict option) list" where
  "schema_run = [(0, [(''a'', 1), (''b'', 2)], None), (60, [(''c'', 3), (''a'', 4)], None)]"

definition trained_seq_engine :: ml_engine where
  "trained_seq_engine =
     ml_engine_init\<lparr> deep_model :=
       \<lparr> lstm_input_size = 35, lstm_train_calls = 7, lstm_from_checkpoint = False \<rparr>,
       optimizer := \<lparr> adam_train_calls = 7, adam_from_checkpoint = False \<rparr> \<rparr>"

text \<open>A regime detector as constructed, before any price was seen.\<close>

definition regime_detector_init :: regime_detector where
  "regime_detector_init = \<lparr> price_history = [], regime_history = [] \<rparr>"

definition first_regime_info :: regime_info where
  "first_regime_info =
     \<lparr> ri_regime = ''sideways_medium_vol'', ri_volatility = 0.2, ri_trend_strength = 0,
       ri_momentum = 0 \<rparr>"

text \<open>
  Fifty labelled samples (the default minimum) whose \<open>regime\<close> label is 0 throughout,
  while the three other class labels take two values each.
\<close>

definition flat_labels :: "real \<Rightarrow> pydict" where
  "flat_labels c =
     [(''regime'', 0), (''confidence'', c), (''pattern'', c), (''signal_direction'', c),
      (''position_size'', 0.5), (''stop_loss_pct'', 0.10), (''trailing_stop_pct'', 0.5)]"

definition flat_sample :: "real \<Rightarrow> sample" where
  "flat_sample c =
     \<lparr> s_features = [(''pcr_oi'', 1.0), (''time_of_day'', 12.0)], s_timestamp = 0,
       s_labels = Some (flat_labels c) \<rparr>"

definition single_regime_engine :: ml_engine where
  "single_regime_engine =
     ml_engine_init\<lparr> training_data := replicate 25 (flat_sample 0) @ replicate 25 (flat_sample 1) \<rparr>"

text \<open>
  A trained engine over a two-name schema, and estimators that answer with fixed values:
  the regressors overshoot their ranges, the direction classifier says -1, the
  confidence classifier gives probability 0.4 and the meta-learner is not fit.
\<close>

definition small_trained_engine :: ml_engine where
  "small_trained_engine =
     ml_engine_init\<lparr> feature_names := [''pcr_oi'', ''time_of_day''],
                      trained_feature_names := [''pcr_oi'', ''time_of_day''],
                      is_trained := True, input_size := 2 \<rparr>"

definition fixed_estimators :: estimators where
  "fixed_estimators =
     \<lparr> scaler_transform = (\<lambda>x. Some x),
       regime_classifier_predict = (\<lambda>x. Some 1),
       signal_confidence_predict_proba = (\<lambda>x. Some [0.6, 0.4]),
       pattern_detector_predict = (\<lambda>x. Some 2),
       signal_direction_predict = (\<lambda>x. Some (- 1)),
       position_sizer_predict = (\<lambda>x. Some 1.7),
       stop_loss_predictor_predict = (\<lambda>x. Some 0.01),
       trailing_stop_predictor_predict = (\<lambda>x. None),
       meta_learner_predict = (\<lambda>x. None),
       deep_model_predict = (\<lambda>x. None) \<rparr>"

definition fixed_prediction :: prediction where
  "fixed_prediction =
     \<lparr> pr_regime = 1, pr_confidence = 0.7, pr_pattern = 2, pr_signal_direction = - 1,
       pr_tradetron_signal = - 1, pr_position_size = 1.0, pr_stop_loss_pct = 0.05,
       pr_trailing_stop_pct = 0.5, pr_deep_learning_used = False \<rparr>"

text \<open>
  The ATM row of the scenario: strike 24000, call at 50 and put at 40, call open interest
  2000 and put open interest 3000, the same volume on both sides. No earlier snapshot is
  stored, so the change features are the zeros filled in from the schema.
\<close>

definition scenario_row :: "real \<Rightarrow> row" where
  "scenario_row v =
     \<lparr> Strike = 24000, Call_OI = 2000, Call_Change_OI = 0, Call_Volume = v, Call_LTP = 50,
       Put_OI = 3000, Put_Change_OI = 0, Put_Volume = v, Put_LTP = 40 \<rparr>"

section \<open>Exit rules of the position lifecycle\<close>

text \<open>
  After the bookkeeping of \<open>check_exit\<close> the best profit seen is the larger of the
  stored one and the current one, in each of its three branches.
\<close>

lemma check_exit_reason:
  assumes "active s" and "strike_row (entry_strike s) df = Some r"
  shows "returned_reason (fst (check_exit now df signal rg s))
           = exit_reason_of now signal rg
               (s\<lparr>max_profit := max (max_profit s) (entry_price s - leg_price (direction s) r)\<rparr>)
               (leg_price (direction s) r) (entry_price s - leg_price (direction s) r)"
proof -
  let ?profit = "entry_price s - leg_price (direction s) r"
  let ?s1 = "(if ?profit > max_profit s then s\<lparr>max_profit := ?profit\<rparr>
              else if max_profit s > 8.0 \<and> ?profit > 2.0 then s
              else s\<lparr>max_profit := max (max_profit s) ?profit\<rparr>)"
  have s1: "?s1 = s\<lparr>max_profit := max (max_profit s) ?profit\<rparr>"
    by (simp add: max_def)
  have "returned_reason (fst (check_exit now df signal rg s))
          = exit_reason_of now signal rg ?s1 (leg_price (direction s) r) ?profit"
    using assms
    by (simp add: check_exit_def returned_reason_def Let_def split: option.splits)
  then show ?thesis by (simp only: s1)
qed

text \<open>
  Claim C2. On an active position whose entry strike is quoted in the snapshot,
  \<open>check_exit\<close> tests the exit conditions in the order stop loss, signal change, profit
  target, time exit, trailing stop, and the first one that holds gives the reason that is
  returned; when none holds nothing is returned. In particular a leg price at or above the
  stop gives ``Stop Loss'' whatever the signal, the target and the clock are.
\<close>

theorem check_exit_priority:
  assumes "active s" and "strike_row (entry_strike s) df = Some r"
  shows "let ltp = leg_price (direction s) r;
             profit = entry_price s - ltp;
             best = max (max_profit s) profit;
             res = returned_reason (fst (check_exit now df signal rg s));
             timed_out = (\<exists>t0. entry_time s = Some t0 \<and> now - t0 > 7200);
             trailing_pct = (case ml_trailing_stop_pct s of
                               Some p \<Rightarrow> if p \<noteq> 0 then p else regime_trailing_pct rg
                             | None \<Rightarrow> regime_trailing_pct rg);
             trailing_hit = (best > 8.0 \<and> profit > 2.0 \<and> profit < best * trailing_pct)
         in (ltp \<ge> stop_loss s \<longrightarrow> res = Some ''Stop Loss'') \<and>
            (ltp < stop_loss s \<and> (signal = 0 \<or> signal \<noteq> direction s)
               \<longrightarrow> res = Some ''Signal Change'') \<and>
            (ltp < stop_loss s \<and> signal \<noteq> 0 \<and> signal = direction s \<and> ltp \<le> profit_target s
               \<longrightarrow> res = Some ''Profit Target'') \<and>
            (ltp < stop_loss s \<and> signal \<noteq> 0 \<and> signal = direction s \<and> profit_target s < ltp
               \<and> timed_out \<longrightarrow> res = Some ''Time Exit'') \<and>
            (ltp < stop_loss s \<and> signal \<noteq> 0 \<and> signal = direction s \<and> profit_target s < ltp
               \<and> \<not> timed_out \<and> trailing_hit \<longrightarrow> res = Some ''Trailing Stop'') \<and>
            (ltp < stop_loss s \<and> signal \<noteq> 0 \<and> signal = direction s \<and> profit_target s < ltp
               \<and> \<not> timed_out \<and> \<not> trailing_hit \<longrightarrow> res = None)"
  unfolding Let_def check_exit_reason [OF assms]
  by (simp add: exit_reason_of_def split: option.splits)

text \<open>
  The example of the specification (entry 100, stop 110, target 60, put quoted at 115), and
  a state whose target lies above its stop, so that 115 meets both thresholds at once.
\<close>

theorem check_exit_priority_witness:
  "active open_pos \<and>
   strike_row (entry_strike open_pos) [quote 24000 80 115] = Some (quote 24000 80 115) \<and>
   returned_reason (fst (check_exit 60 [quote 24000 80 115] 1 ''unknown'' open_pos))
     = Some ''Stop Loss'' \<and>
   115 \<le> profit_target (open_pos\<lparr>profit_target := 120\<rparr>) \<and>
   returned_reason (fst (check_exit 60 [quote 24000 80 115] 1 ''unknown''
                           (open_pos\<lparr>profit_target := 120\<rparr>)))
     = Some ''Stop Loss''"
proof -
  have a: "active open_pos" "active (open_pos\<lparr>profit_target := 120\<rparr>)"
    by (simp_all add: open_pos_def)
  have b: "strike_row (entry_strike open_pos) [quote 24000 80 115] = Some (quote 24000 80 115)"
    "strike_row (entry_strike (open_pos\<lparr>profit_target := 120\<rparr>)) [quote 24000 80 115]
       = Some (quote 24000 80 115)"
    by (simp_all add: open_pos_def strike_row_def quote_def)
  have c: "leg_price (direction open_pos) (quote 24000 80 115) \<ge> stop_loss open_pos"
    "leg_price (direction (open_pos\<lparr>profit_target := 120\<rparr>)) (quote 24000 80 115)
       \<ge> stop_loss (open_pos\<lparr>profit_target := 120\<rparr>)"
    "115 \<le> profit_target (open_pos\<lparr>profit_target := 120\<rparr>)"
    by (simp_all add: open_pos_def leg_price_def quote_def)
  have d: "returned_reason (fst (check_exit 60 [quote 24000 80 115] 1 ''unknown'' open_pos))
     = Some ''Stop Loss''"
    using check_exit_priority [OF a(1) b(1), of 60 1 "''unknown''"] c(1)
    unfolding Let_def by blast
  have e: "returned_reason (fst (check_exit 60 [quote 24000 80 115] 1 ''unknown''
                           (open_pos\<lparr>profit_target := 120\<rparr>))) = Some ''Stop Loss''"
    using check_exit_priority [OF a(2) b(2), of 60 1 "''unknown''"] c(2)
    unfolding Let_def by blast
  from a b c d e show ?thesis by blast
qed


text \<open>
  Claim C8. Whenever \<open>check_exit\<close> returns a result, the per-contract PnL is the entry
  price minus the current price of the leg that was sold, the outcome is 1 exactly when
  that PnL is strictly positive (and 0 otherwise), and a short put entered at 100 that
  exits with the put at 70 returns PnL 30 and outcome 1, whichever exit reason matched.
\<close>

theorem check_exit_pnl_sign:
  assumes "fst (check_exit now df signal rg s) = Some (outcome, final_pnl, td)"
  shows "\<exists>r. strike_row (entry_strike s) df = Some r \<and>
             final_pnl = entry_price s - leg_price (direction s) r \<and>
             td_pnl td = final_pnl \<and> td_outcome td = outcome \<and>
             (outcome = 1 \<longleftrightarrow> 0 < final_pnl) \<and> (outcome = 0 \<longleftrightarrow> final_pnl \<le> 0) \<and>
             (position s = Some SHORT_PUT \<and> direction s = 1 \<and> entry_price s = 100 \<and>
              Put_LTP r = 70 \<longrightarrow> final_pnl = 30 \<and> outcome = 1)"
  using assms
  by (auto simp: check_exit_def Let_def leg_price_def split: option.splits if_splits)

theorem check_exit_pnl_sign_witness:
  "fst (check_exit 60 [quote 24000 80 70] 0 ''unknown''
          (snd (enter 0 1 100 24000 1 ''unknown'' None (paper_trade_init None))))
     = Some (1, 30, \<lparr> td_exit_reason = ''Signal Change'', td_exit_price = 70,
                      td_max_profit = 30, td_entry_price = 100, td_strike = 24000,
                      td_position_size = 1, td_direction = 1, td_regime = ''unknown'',
                      td_pnl = 30, td_outcome = 1 \<rparr>) \<and>
   position (snd (enter 0 1 100 24000 1 ''unknown'' None (paper_trade_init None)))
     = Some SHORT_PUT"
proof -
  let ?s = "snd (enter 0 1 100 24000 1 ''unknown'' None (paper_trade_init None))"
  let ?td = "\<lparr> td_exit_reason = ''Signal Change'', td_exit_price = 70,
                td_max_profit = 30, td_entry_price = 100, td_strike = 24000,
                td_position_size = 1, td_direction = 1, td_regime = ''unknown'',
                td_pnl = 30, td_outcome = 1 \<rparr>"
  have h: "fst (check_exit 60 [quote 24000 80 70] 0 ''unknown'' ?s) = Some (1, 30, ?td)"
    by (simp add: check_exit_def enter_def paper_trade_init_def calculate_exit_levels_def
          strike_row_def quote_def leg_price_def exit_reason_of_def Let_def)
  have p: "position ?s = Some SHORT_PUT"
    by (simp add: enter_def paper_trade_init_def calculate_exit_levels_def)
  from check_exit_pnl_sign [OF h] h p show ?thesis by simp
qed

section \<open>Entering while a position is open\<close>

text \<open>
  Claim C3, as stated, fails: \<open>enter\<close> does not look at \<open>active\<close>. On the open short
  put \<open>open_pos\<close> (entered at 100) a call with direction -1 and price 50 returns true and
  replaces the position.
\<close>

theorem enter_while_open_counterexample:
  "active open_pos \<and> entry_price open_pos = 100 \<and>
   fst (enter 60 (- 1) 50 24100 2 ''unknown'' None open_pos) = True \<and>
   entry_price (snd (enter 60 (- 1) 50 24100 2 ''unknown'' None open_pos)) = 50 \<and>
   position (snd (enter 60 (- 1) 50 24100 2 ''unknown'' None open_pos)) = Some SHORT_CALL"
  by (simp add: enter_def open_pos_def calculate_exit_levels_def)

text \<open>
  Claim C3, amended. The state holds one position, and the single-position rule is kept by
  the callers: the entry step of the run loop leaves an OPEN position untouched. \<open>enter\<close>
  itself returns false without any change when the direction is not 1 or -1 or the price
  is not positive; otherwise it returns true and writes the new position, open or not.
\<close>

theorem enter_guarded_by_caller:
  "(active s \<longrightarrow> threshold_entry now signal strength atm_row atm_strike psize rg mp s = s) \<and>
   ((dir \<noteq> 1 \<and> dir \<noteq> - 1) \<or> ltp \<le> 0 \<longrightarrow> enter now dir ltp strike psize rg mp s = (False, s)) \<and>
   ((dir = 1 \<or> dir = - 1) \<and> 0 < ltp \<longrightarrow>
      fst (enter now dir ltp strike psize rg mp s) = True \<and>
      active (snd (enter now dir ltp strike psize rg mp s)) \<and>
      position (snd (enter now dir ltp strike psize rg mp s))
        = Some (if dir = 1 then SHORT_PUT else SHORT_CALL) \<and>
      entry_price (snd (enter now dir ltp strike psize rg mp s)) = ltp \<and>
      entry_strike (snd (enter now dir ltp strike psize rg mp s)) = strike \<and>
      entry_time (snd (enter now dir ltp strike psize rg mp s)) = Some now)"
  by (auto simp: threshold_entry_def enter_def calculate_exit_levels_def Let_def
           split: option.splits list.splits)

theorem enter_guarded_by_caller_witness:
  "active open_pos \<and>
   threshold_entry 60 (- 1) 5 (quote 24100 50 45) 24100 2 ''unknown'' None open_pos = open_pos \<and>
   enter 60 0 50 24100 2 ''unknown'' None open_pos = (False, open_pos) \<and>
   enter 60 1 0 24100 2 ''unknown'' None open_pos = (False, open_pos) \<and>
   fst (enter 60 (- 1) 50 24100 2 ''unknown'' None open_pos) = True"
proof -
  have a: "active open_pos" by (simp add: open_pos_def)
  show ?thesis
    using a
      enter_guarded_by_caller [of open_pos 60 "- 1" 5 "quote 24100 50 45" 24100 2
        "''unknown''" None 0 50 24100]
      enter_guarded_by_caller [of open_pos 60 "- 1" 5 "quote 24100 50 45" 24100 2
        "''unknown''" None 1 0 24100]
      enter_guarded_by_caller [of open_pos 60 "- 1" 5 "quote 24100 50 45" 24100 2
        "''unknown''" None "- 1" 50 24100]
    by simp
qed

section \<open>The feature schema under online updates\<close>

lemma extend_names_prefix: "prefix names (fst (extend_names names ks a))"
proof (induction ks arbitrary: names a)
  case Nil
  then show ?case by simp
next
  case (Cons k ks)
  show ?case
  proof (cases "k \<in> set names")
    case True
    with Cons show ?thesis by simp
  next
    case False
    have "prefix names (names @ [k])" by simp
    also have "prefix (names @ [k]) (fst (extend_names (names @ [k]) ks (a + 1)))"
      by (rule Cons.IH)
    finally show ?thesis using False by simp
  qed
qed

lemma extend_names_known:
  "set ks \<subseteq> set names \<Longrightarrow> extend_names names ks a = (names, a)"
  by (induction ks arbitrary: names a) auto

lemma update_feature_names:
  "feature_names (update_training_data now f l e) =
     (if feature_names e = [] then dict_keys f
      else fst (extend_names (feature_names e) (dict_keys f) 0))"
  by (simp add: update_training_data_def Let_def split: prod.splits)

lemma update_prefix:
  "prefix (feature_names e) (feature_names (update_training_data now f l e))"
  by (simp add: update_feature_names extend_names_prefix)

lemma feed_prefix: "prefix (feature_names e) (feature_names (feed cs e))"
proof (induction cs arbitrary: e)
  case Nil
  then show ?case by simp
next
  case (Cons c cs)
  obtain now f l where c: "c = (now, f, l)" by (cases c)
  have "prefix (feature_names e) (feature_names (update_training_data now f l e))"
    by (rule update_prefix)
  also have "prefix \<dots> (feature_names (feed cs (update_training_data now f l e)))"
    by (rule Cons.IH)
  finally show ?case by (simp add: c)
qed

lemma feed_append: "feed (cs @ ds) e = feed ds (feed cs e)"
  by (induction cs arbitrary: e) auto

text \<open>
  Claim C7. Along any run of \<open>update_training_data\<close> calls, the schema after the first
  \<open>i\<close> calls is a prefix of the schema after the first \<open>j \<ge> i\<close> calls, and so is not
  longer: names are appended, never removed or moved.
\<close>

theorem feature_names_append_only:
  assumes "i \<le> j"
  shows "prefix (feature_names (feed (take i cs) e)) (feature_names (feed (take j cs) e)) \<and>
         length (feature_names (feed (take i cs) e))
           \<le> length (feature_names (feed (take j cs) e))"
proof -
  have "take j cs = take i cs @ drop i (take j cs)"
    using assms by (metis append_take_drop_id min.absorb_iff2 take_take min.commute)
  then have "feed (take j cs) e = feed (drop i (take j cs)) (feed (take i cs) e)"
    by (metis feed_append)
  then have "prefix (feature_names (feed (take i cs) e)) (feature_names (feed (take j cs) e))"
    by (simp add: feed_prefix)
  then show ?thesis by (simp add: prefix_length_le)
qed

theorem feature_names_append_only_witness:
  "(1::nat) \<le> 2 \<and>
   feature_names (feed (take 1 schema_run) schema_engine) = [''a'', ''b''] \<and>
   feature_names (feed (take 2 schema_run) schema_engine) = [''a'', ''b'', ''c''] \<and>
   prefix (feature_names (feed (take 1 schema_run) schema_engine))
          (feature_names (feed (take 2 schema_run) schema_engine))"
proof -
  have h: "(1::nat) \<le> 2" by simp
  have a: "feature_names (feed (take 1 schema_run) schema_engine) = [''a'', ''b'']"
    by (simp add: schema_run_def schema_engine_def ml_engine_init_def update_feature_names
          dict_keys_def)
  have b: "feature_names (feed (take 2 schema_run) schema_engine) = [''a'', ''b'', ''c'']"
    by (simp add: schema_run_def schema_engine_def ml_engine_init_def update_feature_names
          dict_keys_def numeral_2_eq_2)
  from feature_names_append_only [OF h, of schema_run schema_engine] h a b
  show ?thesis by simp
qed

section \<open>The sequence model under online updates\<close>

lemma update_deep_model:
  "feature_names e \<noteq> [] \<Longrightarrow>
   deep_model (update_training_data now f l e)
     = LSTMSignalPredictor (input_size (update_training_data now f l e)) \<and>
   optimizer (update_training_data now f l e) = Adam"
  by (simp add: update_training_data_def Let_def split: prod.splits)

lemma update_input_size:
  "feature_names e \<noteq> [] \<Longrightarrow> set (dict_keys f) \<subseteq> set (feature_names e) \<Longrightarrow>
   input_size (update_training_data now f l e) = input_size e"
  by (simp add: update_training_data_def Let_def extend_names_known)

text \<open>
  Claim C10. When the schema is not empty, every call of \<open>update_training_data\<close> leaves a
  sequence model and an optimizer that were constructed in that call: no training call and
  no checkpoint is left in them, whatever the model held before. This is so also when the
  feature map brings no new name, in which case the schema and the input width are the
  ones before the call. The schema is not empty after construction and stays so.
\<close>

theorem update_rebuilds_deep_model:
  assumes "feature_names e \<noteq> []"
  shows "deep_model (update_training_data now f l e)
           = LSTMSignalPredictor (input_size (update_training_data now f l e)) \<and>
         lstm_train_calls (deep_model (update_training_data now f l e)) = 0 \<and>
         \<not> lstm_from_checkpoint (deep_model (update_training_data now f l e)) \<and>
         optimizer (update_training_data now f l e) = Adam \<and>
         feature_names (update_training_data now f l e) \<noteq> [] \<and>
         (set (dict_keys f) \<subseteq> set (feature_names e) \<longrightarrow>
            feature_names (update_training_data now f l e) = feature_names e \<and>
            input_size (update_training_data now f l e) = input_size e) \<and>
         feature_names ml_engine_init \<noteq> []"
proof -
  have ne: "feature_names (update_training_data now f l e) \<noteq> []"
    using assms extend_names_prefix [of "feature_names e" "dict_keys f" 0]
    by (auto simp: update_feature_names)
  have i: "feature_names ml_engine_init \<noteq> []"
    by (simp add: ml_engine_init_def initial_feature_names_def)
  have k: "set (dict_keys f) \<subseteq> set (feature_names e) \<Longrightarrow>
      feature_names (update_training_data now f l e) = feature_names e"
    using assms by (simp add: update_feature_names extend_names_known)
  note d = update_deep_model [OF assms, of now f l]
  have t: "lstm_train_calls (deep_model (update_training_data now f l e)) = 0 \<and>
         \<not> lstm_from_checkpoint (deep_model (update_training_data now f l e))"
    using d by (simp add: LSTMSignalPredictor_def)
  show ?thesis
    using d t ne i k update_input_size [OF assms, of f now l] by blast
qed

theorem update_rebuilds_deep_model_witness:
  "feature_names trained_seq_engine \<noteq> [] \<and>
   lstm_train_calls (deep_model trained_seq_engine) = 7 \<and>
   set (dict_keys [(''pcr_oi'', 1.5)]) \<subseteq> set (feature_names trained_seq_engine) \<and>
   deep_model (update_training_data 0 [(''pcr_oi'', 1.5)] None trained_seq_engine)
     = LSTMSignalPredictor 35 \<and>
   lstm_train_calls
     (deep_model (update_training_data 0 [(''pcr_oi'', 1.5)] None trained_seq_engine)) = 0 \<and>
   optimizer (update_training_data 0 [(''pcr_oi'', 1.5)] None trained_seq_engine) = Adam"
proof -
  have h: "feature_names trained_seq_engine \<noteq> []"
    by (simp add: trained_seq_engine_def ml_engine_init_def initial_feature_names_def)
  have k: "set (dict_keys [(''pcr_oi'', 1.5)]) \<subseteq> set (feature_names trained_seq_engine)"
    by (simp add: trained_seq_engine_def ml_engine_init_def initial_feature_names_def
          dict_keys_def)
  have i: "input_size trained_seq_engine = 35"
    "lstm_train_calls (deep_model trained_seq_engine) = 7"
    by (simp_all add: trained_seq_engine_def ml_engine_init_def)
  note t = update_rebuilds_deep_model [OF h, of 0 "[(''pcr_oi'', 1.5)]" None]
  from t k have "input_size (update_training_data 0 [(''pcr_oi'', 1.5)] None trained_seq_engine)
      = input_size trained_seq_engine" by blast
  with t h k i show ?thesis by metis
qed

section \<open>Position sizing never falls below one lot\<close>

lemma lots_ge_one: "(1::int) \<le> min (max 1 a) (max 1 b)"
  by simp

lemma body_Inr_ge_one:
  assumes "position_size_body lot_size rm account_value volatility confidence signal_strength
             = Inr lots"
  shows "1 \<le> lots"
  using assms unfolding position_size_body_def Let_def
  by (simp only: sum.inject sum.distinct split: if_splits) (metis lots_ge_one)+


text \<open>
  Claim C5. For every account value, volatility, confidence and signal strength, every
  trade history and every configured lot size, \<open>calculate_position_size\<close> returns an
  integer number of lots that is at least 1; when the block raises, the handler returns
  exactly 1.
\<close>

theorem position_size_at_least_one:
  "1 \<le> calculate_position_size lot_size rm account_value volatility confidence signal_strength \<and>
   (\<forall>e. position_size_body lot_size rm account_value volatility confidence signal_strength = Inl e
      \<longrightarrow> calculate_position_size lot_size rm account_value volatility confidence signal_strength = 1)"
proof (cases "position_size_body lot_size rm account_value volatility confidence signal_strength")
  case (Inl e)
  then show ?thesis by (simp add: calculate_position_size_def)
next
  case (Inr lots)
  then show ?thesis using body_Inr_ge_one [OF Inr] by (simp add: calculate_position_size_def)
qed

theorem position_size_at_least_one_witness:
  "position_size_body 75 risk_manager_init 0 (- 0.5) 0 0 = Inl ZeroDivisionError \<and>
   calculate_position_size 75 risk_manager_init 0 (- 0.5) 0 0 = 1 \<and>
   position_size_body 75 risk_manager_init 0 (- 3) 0 0 = Inr 1 \<and>
   1 \<le> calculate_position_size 75 risk_manager_init 0 (- 3) 0 0"
proof -
  have a: "position_size_body 75 risk_manager_init 0 (- 0.5) 0 0 = Inl ZeroDivisionError"
    by (simp add: position_size_body_def Let_def risk_manager_init_def get_average_loss_def)
  have b: "position_size_body 75 risk_manager_init 0 (- 3) 0 0 = Inr 1"
    by (simp add: position_size_body_def Let_def risk_manager_init_def get_average_loss_def
          py_round_def)
  from position_size_at_least_one [of 75 risk_manager_init 0 "- 0.5" 0 0]
    position_size_at_least_one [of 75 risk_manager_init 0 "- 3" 0 0] a b
  show ?thesis by blast
qed


section \<open>Regime detection and its safe default\<close>

lemma clamp_bounds: "(a::real) \<le> b \<Longrightarrow> a \<le> max a (min b x) \<and> max a (min b x) \<le> b"
  by auto

lemma vol_bounds:
  "0.05 \<le> calculate_realized_volatility_from_history w rd \<and>
   calculate_realized_volatility_from_history w rd \<le> 2.0"
proof -
  have c: "\<And>x::real. 0.05 \<le> max 0.05 (min 2.0 x) \<and> max 0.05 (min 2.0 x) \<le> 2.0"
    by (rule clamp_bounds) simp
  have d: "(0.05::real) \<le> 0.2 \<and> (0.2::real) \<le> 2.0 \<and> (0.05::real) \<le> 2.0" by simp
  show ?thesis
    unfolding calculate_realized_volatility_from_history_def Let_def
    using c d by (simp only: split: if_split) blast
qed

lemma vol_default:
  "length (price_history rd) < 2 \<Longrightarrow> calculate_realized_volatility_from_history w rd = 0.2"
  by (simp add: calculate_realized_volatility_from_history_def)

lemma detect_regime_body_Inr:
  assumes "detect_regime_body fault uv rd = Inr (info, rd')"
  shows "ri_volatility info = calculate_realized_volatility_from_history 20 (record_price uv rd) \<and>
         price_history rd' = price_history (record_price uv rd)"
  using assms by (auto simp: detect_regime_body_def Let_def split: option.splits)

text \<open>
  Claim C6. \<open>detect_regime\<close> always returns a record: when the block raises, it is the
  default record (``unknown'', volatility 0.2, trend 0, momentum 0); when the block
  succeeds, the volatility of the record lies in [0.05, 2.0] and is 0.2 when fewer than two
  prices are in the rolling history.
\<close>

theorem detect_regime_safe:
  "(\<forall>e rd1. detect_regime_body fault uv rd = Inl (e, rd1) \<longrightarrow>
      detect_regime fault uv rd = (default_regime_info, rd1)) \<and>
   (\<forall>info rd'. detect_regime_body fault uv rd = Inr (info, rd') \<longrightarrow>
      detect_regime fault uv rd = (info, rd') \<and>
      0.05 \<le> ri_volatility info \<and> ri_volatility info \<le> 2.0 \<and>
      (length (price_history rd') < 2 \<longrightarrow> ri_volatility info = 0.2))"
proof -
  have 1: "\<forall>e rd1. detect_regime_body fault uv rd = Inl (e, rd1) \<longrightarrow>
      detect_regime fault uv rd = (default_regime_info, rd1)"
    by (simp add: detect_regime_def)
  have 2: "\<forall>info rd'. detect_regime_body fault uv rd = Inr (info, rd') \<longrightarrow>
      detect_regime fault uv rd = (info, rd') \<and>
      0.05 \<le> ri_volatility info \<and> ri_volatility info \<le> 2.0 \<and>
      (length (price_history rd') < 2 \<longrightarrow> ri_volatility info = 0.2)"
  proof (intro allI impI)
    fix info rd'
    assume b: "detect_regime_body fault uv rd = Inr (info, rd')"
    note v = detect_regime_body_Inr [OF b]
    have "detect_regime fault uv rd = (info, rd')" using b by (simp add: detect_regime_def)
    moreover have "0.05 \<le> ri_volatility info \<and> ri_volatility info \<le> 2.0"
      using v vol_bounds [of 20 "record_price uv rd"] by simp
    moreover have "length (price_history rd') < 2 \<longrightarrow> ri_volatility info = 0.2"
      using v vol_default [of "record_price uv rd" 20] by simp
    ultimately show "detect_regime fault uv rd = (info, rd') \<and>
      0.05 \<le> ri_volatility info \<and> ri_volatility info \<le> 2.0 \<and>
      (length (price_history rd') < 2 \<longrightarrow> ri_volatility info = 0.2)" by blast
  qed
  from 1 2 show ?thesis by blast
qed

theorem detect_regime_safe_witness:
  "detect_regime_body (Some InternalError) (Some 24000) regime_detector_init
     = Inl (InternalError, regime_detector_init\<lparr> price_history := [24000] \<rparr>) \<and>
   detect_regime (Some InternalError) (Some 24000) regime_detector_init
     = (default_regime_info, regime_detector_init\<lparr> price_history := [24000] \<rparr>) \<and>
   detect_regime_body None (Some 24000) regime_detector_init
     = Inr (first_regime_info,
            regime_detector_init\<lparr> price_history := [24000],
                                  regime_history := [first_regime_info] \<rparr>) \<and>
   length (price_history (regime_detector_init\<lparr> price_history := [24000],
                                  regime_history := [first_regime_info] \<rparr>)) < 2 \<and>
   ri_volatility first_regime_info = 0.2 \<and>
   fst (detect_regime None (Some 24000) regime_detector_init) = first_regime_info"
proof -
  have a: "detect_regime_body (Some InternalError) (Some 24000) regime_detector_init
     = Inl (InternalError, regime_detector_init\<lparr> price_history := [24000] \<rparr>)"
    by (simp add: detect_regime_body_def record_price_def regime_detector_init_def Let_def)
  have b: "detect_regime_body None (Some 24000) regime_detector_init
     = Inr (first_regime_info,
            regime_detector_init\<lparr> price_history := [24000],
                                  regime_history := [first_regime_info] \<rparr>)"
    by (simp add: detect_regime_body_def record_price_def regime_detector_init_def Let_def
          calculate_realized_volatility_from_history_def calculate_trend_strength_def
          calculate_momentum_def regime_label_def first_regime_info_def)
  have c: "length (price_history (regime_detector_init\<lparr> price_history := [24000],
                                  regime_history := [first_regime_info] \<rparr>)) < 2"
    by simp
  from detect_regime_safe [of "Some InternalError" "Some 24000" regime_detector_init] a
  have d: "detect_regime (Some InternalError) (Some 24000) regime_detector_init
     = (default_regime_info, regime_detector_init\<lparr> price_history := [24000] \<rparr>)" by blast
  from detect_regime_safe [of None "Some 24000" regime_detector_init] b c
  have e: "detect_regime None (Some 24000) regime_detector_init
     = (first_regime_info, regime_detector_init\<lparr> price_history := [24000],
                                  regime_history := [first_regime_info] \<rparr>) \<and>
     ri_volatility first_regime_info = 0.2" by blast
  from a b c d e show ?thesis by simp
qed

section \<open>Diversity gating in batch training\<close>

lemma collect_labels_stored:
  "\<forall>smp \<in> set smps. \<exists>l ls. s_labels smp = Some (l # ls) \<Longrightarrow>
   collect_labels smps = Inr (map (\<lambda>smp. the (s_labels smp)) smps)"
  by (induction smps) (auto simp: sample_labels_def)

lemma remdups_const: "\<forall>y \<in> set ys. y = c \<Longrightarrow> length (remdups ys) \<le> 1"
proof -
  assume a: "\<forall>y \<in> set ys. y = c"
  then have "set ys \<subseteq> {c}" by auto
  then have "card (set ys) \<le> card {c}" by (intro card_mono) auto
  then show ?thesis by (simp add: length_remdups_card_conv)
qed

lemma train_models_uniform_regime:
  assumes "\<forall>smp \<in> set (training_data e). \<exists>l ls. s_labels smp = Some (l # ls) \<and> dict_get (l # ls) ''regime'' 0 = r"
  shows "fst (train_models e) = False \<and> fitted (snd (train_models e)) = fitted e \<and>
         is_trained (snd (train_models e)) = is_trained e"
proof -
  have st: "\<forall>smp \<in> set (training_data e). \<exists>l ls. s_labels smp = Some (l # ls)"
    using assms by blast
  have c: "collect_labels (training_data e) = Inr (map (\<lambda>smp. the (s_labels smp)) (training_data e))"
    by (rule collect_labels_stored [OF st])
  have "\<forall>y \<in> set (map (\<lambda>l. dict_get l ''regime'' 0) (map (\<lambda>smp. the (s_labels smp)) (training_data e))). y = r"
    using assms by auto
  then have d: "\<not> has_sufficient_diversity (map (\<lambda>l. dict_get l ''regime'' 0) (map (\<lambda>smp. the (s_labels smp)) (training_data e)))"
    using remdups_const [of _ r] by (fastforce simp: has_sufficient_diversity_def)
  show ?thesis
    using d by (simp add: train_models_def c Let_def)
qed

text \<open>
  Claim C1. The claim asks that a class target with a single label value skips its own
  classifier only, the regressors being fit all the same. The source tests the four targets
  together and returns false as soon as one of them lacks diversity, before the scaler or
  any estimator is fit: on fifty samples whose \<open>regime\<close> label is constant (the other
  targets being diverse) \<open>train_models\<close> returns false, \<open>position_sizer\<close> is not fit
  and \<open>is_trained\<close> stays false.
\<close>

theorem train_models_single_regime_aborts:
  "length (training_data single_regime_engine) = 50 \<and>
   min_training_samples single_regime_engine = 50 \<and>
   has_sufficient_diversity (map (\<lambda>smp. dict_get (the (s_labels smp)) ''confidence'' 1)
                               (training_data single_regime_engine)) \<and>
   fst (train_models single_regime_engine) = False \<and>
   fitted (snd (train_models single_regime_engine)) = {} \<and>
   ''position_sizer'' \<notin> fitted (snd (train_models single_regime_engine)) \<and>
   \<not> is_trained (snd (train_models single_regime_engine))"
proof -
  have a: "\<forall>smp \<in> set (training_data single_regime_engine).
      \<exists>l ls. s_labels smp = Some (l # ls) \<and> dict_get (l # ls) ''regime'' 0 = 0"
    by (auto simp: single_regime_engine_def flat_sample_def flat_labels_def dict_get_def)
  note t = train_models_uniform_regime [OF a]
  have b: "fitted single_regime_engine = {}" "\<not> is_trained single_regime_engine"
    "length (training_data single_regime_engine) = 50"
    "min_training_samples single_regime_engine = 50"
    by (simp_all add: single_regime_engine_def ml_engine_init_def)
  have "set (map (\<lambda>smp. dict_get (the (s_labels smp)) ''confidence'' 1)
               (training_data single_regime_engine)) = {0, 1}"
    by (auto simp: single_regime_engine_def flat_sample_def flat_labels_def dict_get_def)
  then have "card (set (map (\<lambda>smp. dict_get (the (s_labels smp)) ''confidence'' 1)
               (training_data single_regime_engine))) = 2"
    by simp
  then have c: "has_sufficient_diversity (map (\<lambda>smp. dict_get (the (s_labels smp)) ''confidence'' 1)
               (training_data single_regime_engine))"
    by (simp only: has_sufficient_diversity_def length_remdups_card_conv [symmetric])
  from t b c show ?thesis by simp
qed

section \<open>The contract of predict\<close>

lemma assemble_prediction_bounds:
  "0.1 \<le> pr_position_size (assemble_prediction f pat sd ps sl ts du) \<and>
   pr_position_size (assemble_prediction f pat sd ps sl ts du) \<le> 1.0 \<and>
   0.05 \<le> pr_stop_loss_pct (assemble_prediction f pat sd ps sl ts du) \<and>
   pr_stop_loss_pct (assemble_prediction f pat sd ps sl ts du) \<le> 0.20 \<and>
   0.3 \<le> pr_trailing_stop_pct (assemble_prediction f pat sd ps sl ts du) \<and>
   pr_trailing_stop_pct (assemble_prediction f pat sd ps sl ts du) \<le> 0.8"
  by (auto simp add: assemble_prediction_def Let_def max_def min_def)

lemma assemble_prediction_signal:
  "pr_signal_direction (assemble_prediction f pat sd ps sl ts du) = sd \<and>
   pr_tradetron_signal (assemble_prediction f pat sd ps sl ts du)
     = (if sd = 1 then 1 else if sd = - 1 then - 1 else 0) \<and>
   (\<bar>sd\<bar> = 1 \<longrightarrow> 0.7 \<le> pr_confidence (assemble_prediction f pat sd ps sl ts du))"
  by (simp add: assemble_prediction_def Let_def)

lemma predict_body_assembled:
  "\<exists>f pat sd ps sl ts du. predict_body ms features e = assemble_prediction f pat sd ps sl ts du"
  unfolding predict_body_def Let_def by blast

text \<open>
  Claim C4. \<open>predict\<close> returns \<open>None\<close> when the engine is not trained or the schema
  is empty. Every record it returns has its position size in [0.1, 1.0], its stop-loss
  percentage in [0.05, 0.20] and its trailing-stop percentage in [0.3, 0.8], whatever the
  estimators answer; for a signal direction among 1, -1 and 0 (the classes of the
  \<open>signal_direction\<close> label) the external signal code equals it, and a direction other
  than 0 comes with a confidence of at least 0.7.
\<close>

theorem predict_contract:
  "(\<not> is_trained e \<or> feature_names e = [] \<longrightarrow> predict ms features e = None) \<and>
   (\<forall>p. predict ms features e = Some p \<longrightarrow>
      0.1 \<le> pr_position_size p \<and> pr_position_size p \<le> 1.0 \<and>
      0.05 \<le> pr_stop_loss_pct p \<and> pr_stop_loss_pct p \<le> 0.20 \<and>
      0.3 \<le> pr_trailing_stop_pct p \<and> pr_trailing_stop_pct p \<le> 0.8 \<and>
      (pr_signal_direction p \<in> {1, - 1, 0} \<longrightarrow>
         pr_tradetron_signal p = pr_signal_direction p \<and>
         (pr_signal_direction p \<noteq> 0 \<longrightarrow> 0.7 \<le> pr_confidence p)))"
proof -
  have 1: "\<not> is_trained e \<or> feature_names e = [] \<longrightarrow> predict ms features e = None"
    by (simp add: predict_def)
  have 2: "\<forall>p. predict ms features e = Some p \<longrightarrow>
      0.1 \<le> pr_position_size p \<and> pr_position_size p \<le> 1.0 \<and>
      0.05 \<le> pr_stop_loss_pct p \<and> pr_stop_loss_pct p \<le> 0.20 \<and>
      0.3 \<le> pr_trailing_stop_pct p \<and> pr_trailing_stop_pct p \<le> 0.8 \<and>
      (pr_signal_direction p \<in> {1, - 1, 0} \<longrightarrow>
         pr_tradetron_signal p = pr_signal_direction p \<and>
         (pr_signal_direction p \<noteq> 0 \<longrightarrow> 0.7 \<le> pr_confidence p))"
  proof (intro allI impI)
    fix p
    assume a: "predict ms features e = Some p"
    then have "p = predict_body ms features e"
      by (simp add: predict_def split: if_splits)
    then obtain f pat sd ps sl ts du where p: "p = assemble_prediction f pat sd ps sl ts du"
      using predict_body_assembled by blast
    note b = assemble_prediction_bounds [of f pat sd ps sl ts du]
    note c = assemble_prediction_signal [of f pat sd ps sl ts du]
    have d: "pr_signal_direction p \<in> {1, - 1, 0} \<longrightarrow>
         pr_tradetron_signal p = pr_signal_direction p \<and>
         (pr_signal_direction p \<noteq> 0 \<longrightarrow> 0.7 \<le> pr_confidence p)"
      using c unfolding p by auto
    show "0.1 \<le> pr_position_size p \<and> pr_position_size p \<le> 1.0 \<and>
      0.05 \<le> pr_stop_loss_pct p \<and> pr_stop_loss_pct p \<le> 0.20 \<and>
      0.3 \<le> pr_trailing_stop_pct p \<and> pr_trailing_stop_pct p \<le> 0.8 \<and>
      (pr_signal_direction p \<in> {1, - 1, 0} \<longrightarrow>
         pr_tradetron_signal p = pr_signal_direction p \<and>
         (pr_signal_direction p \<noteq> 0 \<longrightarrow> 0.7 \<le> pr_confidence p))"
      using b d unfolding p by blast
  qed
  from 1 2 show ?thesis by blast
qed

theorem predict_contract_witness:
  "\<not> is_trained ml_engine_init \<and> predict fixed_estimators [(''pcr_oi'', 1.5)] ml_engine_init = None \<and>
   predict fixed_estimators [(''pcr_oi'', 1.5)] small_trained_engine = Some fixed_prediction \<and>
   pr_signal_direction fixed_prediction \<in> {1, - 1, 0} \<and>
   pr_signal_direction fixed_prediction \<noteq> 0 \<and>
   pr_tradetron_signal fixed_prediction = pr_signal_direction fixed_prediction \<and>
   0.7 \<le> pr_confidence fixed_prediction \<and>
   pr_position_size fixed_prediction \<le> 1.0 \<and> 0.05 \<le> pr_stop_loss_pct fixed_prediction"
proof -
  have a: "\<not> is_trained ml_engine_init" by (simp add: ml_engine_init_def)
  have b: "predict fixed_estimators [(''pcr_oi'', 1.5)] small_trained_engine = Some fixed_prediction"
    by (simp add: predict_def predict_body_def small_trained_engine_def ml_engine_init_def
          fixed_estimators_def fixed_prediction_def assemble_prediction_def Let_def
          scale_features_def deep_prediction_def final_regime_confidence_def
          average_with_deep_def predict_with_deep_model_def feature_vector_of_def)
  have c: "pr_signal_direction fixed_prediction \<in> {1, - 1, 0}"
    "pr_signal_direction fixed_prediction \<noteq> 0"
    by (simp_all add: fixed_prediction_def)
  from predict_contract [of ml_engine_init fixed_estimators "[(''pcr_oi'', 1.5)]"] a
  have d: "predict fixed_estimators [(''pcr_oi'', 1.5)] ml_engine_init = None" by blast
  from predict_contract [of small_trained_engine fixed_estimators "[(''pcr_oi'', 1.5)]"] b c
  have e: "pr_tradetron_signal fixed_prediction = pr_signal_direction fixed_prediction \<and>
   0.7 \<le> pr_confidence fixed_prediction \<and>
   pr_position_size fixed_prediction \<le> 1.0 \<and> 0.05 \<le> pr_stop_loss_pct fixed_prediction"
    by blast
  from a b c d e show ?thesis by blast
qed

section \<open>The rule-based signal on the open-interest scenario\<close>

lemma map_of_dict_set:
  "map_of (dict_set k v d) k' = (if k' = k then Some v else map_of d k')"
  by (induction d) auto

lemma keys_dict_set: "set (dict_keys (dict_set k v d)) = insert k (set (dict_keys d))"
  by (induction d) (auto simp: dict_keys_def)

lemma map_of_fill_missing:
  "map_of (fill_missing ns d) k =
     (case map_of d k of Some v \<Rightarrow> Some v
      | None \<Rightarrow> if k \<in> set ns then Some 0 else None)"
proof (induction ns arbitrary: d)
  case Nil
  then show ?case by (simp split: option.splits)
next
  case (Cons n ns)
  show ?case
  proof (cases "n \<in> set (dict_keys d)")
    case True
    then have "map_of d n \<noteq> None" by (simp add: dict_keys_def map_of_eq_None_iff)
    with True Cons show ?thesis by (auto split: option.splits)
  next
    case False
    then have "map_of d n = None" by (simp add: dict_keys_def map_of_eq_None_iff)
    with False Cons show ?thesis by (auto simp: map_of_dict_set split: option.splits)
  qed
qed

lemma keys_fill_missing: "set (dict_keys d) \<subseteq> set (dict_keys (fill_missing ns d))"
proof (induction ns arbitrary: d)
  case Nil
  then show ?case by simp
next
  case (Cons n ns)
  have "set (dict_keys d) \<subseteq> set (dict_keys (if n \<in> set (dict_keys d) then d else dict_set n 0.0 d))"
    by (auto simp: keys_dict_set)
  also have "\<dots> \<subseteq> set (dict_keys (fill_missing ns (if n \<in> set (dict_keys d) then d else dict_set n 0.0 d)))"
    by (rule Cons.IH)
  finally show ?case by simp
qed

lemma map_of_dict_map_key:
  "map_of (dict_map_key k f d) k' = (if k' = k then map_option f (map_of d k) else map_of d k')"
  by (induction d) (auto simp: dict_map_key_def)

lemma keys_dict_map_key: "dict_keys (dict_map_key k f d) = dict_keys d"
  by (induction d) (auto simp: dict_map_key_def dict_keys_def)

lemma keys_apply_bounds: "dict_keys (apply_bounds bs d) = dict_keys d"
  by (induction bs d rule: apply_bounds.induct) (auto simp: keys_dict_map_key)

lemma keys_apply_scaling: "dict_keys (apply_scaling ss d) = dict_keys d"
  by (induction ss d rule: apply_scaling.induct) (auto simp: keys_dict_map_key)

lemma scenario_extract:
  "extract_features ml_engine_init (Some (scenario_row v # rest)) [] (Some uv) (Some 24000) clk
     = Some (apply_scaling scaling_factors (apply_bounds feature_bounds
               (fill_missing initial_feature_names
                  (basic_features (scenario_row v # rest) uv 24000 (scenario_row v) clk))))"
proof -
  have "set (dict_keys (basic_features (scenario_row v # rest) uv 24000 (scenario_row v) clk))
          \<subseteq> set (dict_keys (fill_missing initial_feature_names
                  (basic_features (scenario_row v # rest) uv 24000 (scenario_row v) clk)))"
    by (rule keys_fill_missing)
  moreover have "''pcr_oi'' \<in> set (dict_keys (basic_features (scenario_row v # rest) uv 24000 (scenario_row v) clk))"
    by (simp add: basic_features_def dict_keys_def Let_def)
  ultimately have ne: "fill_missing initial_feature_names
                  (basic_features (scenario_row v # rest) uv 24000 (scenario_row v) clk) \<noteq> []"
    by (auto simp: dict_keys_def)
  have r: "strike_row 24000 (scenario_row v # rest) = Some (scenario_row v)"
    by (simp add: strike_row_def scenario_row_def)
  show ?thesis
    using ne by (simp add: extract_features_def r historical_features_def
        validate_and_clean_features_def ml_engine_init_def)
qed

lemma cleaned_lookup:
  shows "map_of (apply_scaling scaling_factors (apply_bounds feature_bounds D)) ''pcr_oi''
           = map_option (\<lambda>v. max 0.1 (min 10.0 v)) (map_of D ''pcr_oi'')"
    and "map_of (apply_scaling scaling_factors (apply_bounds feature_bounds D)) ''atm_call_oi''
           = map_option (\<lambda>v. v / 100000) (map_of D ''atm_call_oi'')"
    and "map_of (apply_scaling scaling_factors (apply_bounds feature_bounds D)) ''atm_put_oi''
           = map_option (\<lambda>v. v / 100000) (map_of D ''atm_put_oi'')"
    and "map_of (apply_scaling scaling_factors (apply_bounds feature_bounds D)) ''atm_call_volume''
           = map_option (\<lambda>v. v / 10000) (map_of D ''atm_call_volume'')"
    and "map_of (apply_scaling scaling_factors (apply_bounds feature_bounds D)) ''atm_put_volume''
           = map_option (\<lambda>v. v / 10000) (map_of D ''atm_put_volume'')"
    and "map_of (apply_scaling scaling_factors (apply_bounds feature_bounds D)) ''call_put_ltp_ratio''
           = map_of D ''call_put_ltp_ratio''"
    and "map_of (apply_scaling scaling_factors (apply_bounds feature_bounds D)) ''call_oi_change''
           = map_of D ''call_oi_change''"
    and "map_of (apply_scaling scaling_factors (apply_bounds feature_bounds D)) ''put_oi_change''
           = map_of D ''put_oi_change''"
    and "map_of (apply_scaling scaling_factors (apply_bounds feature_bounds D)) ''call_volume_change''
           = map_of D ''call_volume_change''"
    and "map_of (apply_scaling scaling_factors (apply_bounds feature_bounds D)) ''put_volume_change''
           = map_of D ''put_volume_change''"
    and "map_of (apply_scaling scaling_factors (apply_bounds feature_bounds D)) ''is_opening''
           = map_of D ''is_opening''"
    and "map_of (apply_scaling scaling_factors (apply_bounds feature_bounds D)) ''is_closing''
           = map_of D ''is_closing''"
    and "map_of (apply_scaling scaling_factors (apply_bounds feature_bounds D)) ''is_mid_session''
           = map_of D ''is_mid_session''"
  by (simp_all add: scaling_factors_def feature_bounds_def map_of_dict_map_key)

lemma basic_lookup:
  shows "map_of (basic_features df uv k r clk) ''pcr_oi'' = Some (Put_OI r / max (Call_OI r) 1)"
    and "map_of (basic_features df uv k r clk) ''atm_call_oi'' = Some (Call_OI r)"
    and "map_of (basic_features df uv k r clk) ''atm_put_oi'' = Some (Put_OI r)"
    and "map_of (basic_features df uv k r clk) ''atm_call_volume'' = Some (Call_Volume r)"
    and "map_of (basic_features df uv k r clk) ''atm_put_volume'' = Some (Put_Volume r)"
    and "map_of (basic_features df uv k r clk) ''call_put_ltp_ratio''
           = Some (Call_LTP r / max (Put_LTP r) 0.01)"
    and "map_of (basic_features df uv k r clk) ''is_opening''
           = Some (if clk_hour clk = 9 \<and> clk_minute clk < 30 then 1 else 0)"
    and "map_of (basic_features df uv k r clk) ''is_closing''
           = Some (if clk_hour clk \<ge> 15 then 1 else 0)"
    and "map_of (basic_features df uv k r clk) ''is_mid_session''
           = Some (if 10 \<le> clk_hour clk \<and> clk_hour clk \<le> 14 then 1 else 0)"
    and "map_of (basic_features df uv k r clk) ''call_oi_change'' = None"
    and "map_of (basic_features df uv k r clk) ''put_oi_change'' = None"
    and "map_of (basic_features df uv k r clk) ''call_volume_change'' = None"
    and "map_of (basic_features df uv k r clk) ''put_volume_change'' = None"
  by (simp_all add: basic_features_def Let_def)

lemma change_names_in_schema:
  "''call_oi_change'' \<in> set initial_feature_names"
  "''put_oi_change'' \<in> set initial_feature_names"
  "''call_volume_change'' \<in> set initial_feature_names"
  "''put_volume_change'' \<in> set initial_feature_names"
  by (simp_all add: initial_feature_names_def)

lemma required_in_basic:
  "set required_features \<subseteq> set (dict_keys (basic_features df uv k r clk))"
  by (simp add: required_features_def basic_features_def dict_keys_def Let_def)

lemma scenario_values:
  fixes v uv :: real and rest :: snapshot and clk :: clock
  defines "F \<equiv> apply_scaling scaling_factors (apply_bounds feature_bounds
               (fill_missing initial_feature_names
                  (basic_features (scenario_row v # rest) uv 24000 (scenario_row v) clk)))"
  shows "dict_get F ''pcr_oi'' 0 = 1.5"
    and "dict_get F ''atm_call_oi'' 0 = 0.02"
    and "dict_get F ''atm_put_oi'' 0 = 0.03"
    and "dict_get F ''atm_call_volume'' 0 = v / 10000"
    and "dict_get F ''atm_put_volume'' 0 = v / 10000"
    and "dict_get F ''call_put_ltp_ratio'' 0 = 1.25"
    and "dict_get F ''call_oi_change'' 0 = 0"
    and "dict_get F ''put_oi_change'' 0 = 0"
    and "dict_get F ''call_volume_change'' 0 = 0"
    and "dict_get F ''put_volume_change'' 0 = 0"
    and "dict_get F ''is_opening'' 0 = (if clk_hour clk = 9 \<and> clk_minute clk < 30 then 1 else 0)"
    and "dict_get F ''is_closing'' 0 = (if clk_hour clk \<ge> 15 then 1 else 0)"
    and "dict_get F ''is_mid_session'' 0 = (if 10 \<le> clk_hour clk \<and> clk_hour clk \<le> 14 then 1 else 0)"
  unfolding F_def
  by (simp_all add: dict_get_def cleaned_lookup map_of_fill_missing basic_lookup
        change_names_in_schema scenario_row_def)

lemma neutral_volume: "\<not> ((x::real) > x * 1.5 \<and> x > 100)"
  by auto

lemma scenario_rules:
  fixes v uv :: real and rest :: snapshot and clk :: clock
  defines "F \<equiv> apply_scaling scaling_factors (apply_bounds feature_bounds
               (fill_missing initial_feature_names
                  (basic_features (scenario_row v # rest) uv 24000 (scenario_row v) clk)))"
  shows "signal_rules F = (if 10 \<le> clk_hour clk \<and> clk_hour clk \<le> 14 then (- 1, 2) else (0, 0))"
proof -
  note vals = scenario_values [of v rest uv clk, folded F_def]
  have nv: "\<not> (v / 10000 > v / 10000 * 1.5 \<and> v / 10000 > 100)" by (rule neutral_volume)
  show ?thesis
    unfolding signal_rules_def vals Let_def
    using nv by (auto split: if_splits)
qed

lemma scenario_analysis:
  "traditional_analysis ml_engine_init (Some (scenario_row v # rest)) [] (Some uv) (Some 24000) clk
     = (if 10 \<le> clk_hour clk \<and> clk_hour clk \<le> 14 then (- 1, 2) else (0, 0))"
proof -
  let ?B = "basic_features (scenario_row v # rest) uv 24000 (scenario_row v) clk"
  let ?F = "apply_scaling scaling_factors (apply_bounds feature_bounds
              (fill_missing initial_feature_names ?B))"
  have "set required_features \<subseteq> set (dict_keys ?B)" by (rule required_in_basic)
  also have "\<dots> \<subseteq> set (dict_keys (fill_missing initial_feature_names ?B))"
    by (rule keys_fill_missing)
  also have "dict_keys (fill_missing initial_feature_names ?B) = dict_keys ?F"
    by (simp only: keys_apply_scaling keys_apply_bounds)
  finally have k: "\<not> (\<exists>k \<in> set required_features. k \<notin> set (dict_keys ?F))" by blast
  show ?thesis
    unfolding traditional_analysis_def scenario_extract
    using k scenario_rules [of v rest uv clk] by (simp only: option.case if_False)
qed

text \<open>
  Claim C9, as stated, fails in mid-session: at 12:00 the put open interest above 1.2
  times the call open interest gives signal -1 with strength 1, the mid-session rule
  raises a positive strength by one, and strength 2 passes the minimum-strength rule. The
  returned signal is -1, not 0.
\<close>

theorem traditional_analysis_scenario_counterexample:
  "traditional_analysis ml_engine_init (Some [scenario_row 0]) [] (Some 24010) (Some 24000)
     \<lparr> clk_hour = 12, clk_minute = 0 \<rparr> = (- 1, 2)"
  using scenario_analysis [of 0 "[]" 24010 "\<lparr> clk_hour = 12, clk_minute = 0 \<rparr>"]
  by simp

text \<open>
  Claim C9, amended. On the scenario snapshot the extracted \<open>pcr_oi\<close> is 1.5. At a
  clock hour outside 10 to 14 the heuristic stays below strength 2 and returns signal 0
  with strength 0; at a clock hour from 10 to 14 it returns signal -1 with strength 2.
\<close>

theorem traditional_analysis_scenario:
  "(\<exists>features.
      extract_features ml_engine_init (Some (scenario_row v # rest)) [] (Some uv) (Some 24000) clk
        = Some features \<and> dict_get features ''pcr_oi'' 0 = 1.5) \<and>
   (\<not> (10 \<le> clk_hour clk \<and> clk_hour clk \<le> 14) \<longrightarrow>
      traditional_analysis ml_engine_init (Some (scenario_row v # rest)) [] (Some uv)
        (Some 24000) clk = (0, 0)) \<and>
   (10 \<le> clk_hour clk \<and> clk_hour clk \<le> 14 \<longrightarrow>
      traditional_analysis ml_engine_init (Some (scenario_row v # rest)) [] (Some uv)
        (Some 24000) clk = (- 1, 2))"
  using scenario_extract [of v rest uv clk] scenario_values(1) [of v rest uv clk]
    scenario_analysis [of v rest uv clk]
  by simp

theorem traditional_analysis_scenario_witness:
  "\<not> (10 \<le> clk_hour \<lparr> clk_hour = 9, clk_minute = 45 \<rparr>
        \<and> clk_hour \<lparr> clk_hour = 9, clk_minute = 45 \<rparr> \<le> 14) \<and>
   traditional_analysis ml_engine_init (Some [scenario_row 0]) [] (Some 24010) (Some 24000)
     \<lparr> clk_hour = 9, clk_minute = 45 \<rparr> = (0, 0) \<and>
   (10 \<le> clk_hour \<lparr> clk_hour = 11, clk_minute = 5 \<rparr>
        \<and> clk_hour \<lparr> clk_hour = 11, clk_minute = 5 \<rparr> \<le> 14) \<and>
   traditional_analysis ml_engine_init (Some [scenario_row 0]) [] (Some 24010) (Some 24000)
     \<lparr> clk_hour = 11, clk_minute = 5 \<rparr> = (- 1, 2)"
  using traditional_analysis_scenario [of 0 "[]" 24010 "\<lparr> clk_hour = 9, clk_minute = 45 \<rparr>"]
    traditional_analysis_scenario [of 0 "[]" 24010 "\<lparr> clk_hour = 11, clk_minute = 5 \<rparr>"]
  by simp

end
